theory Spec2Isabelle
  imports Complex_Main "HOL-Library.Word" "HOL-Library.AList"
begin

section \<open>JavaScript values as the handlers of routes/users.js see them\<close>

text \<open>
  A JavaScript string is a sequence of 16-bit code units; \<open>length\<close> counts code units
  and the character classes of a regular expression compare code units. Literals of
  the source are ASCII and are written through \<open>ascii\<close>.
\<close>

type_synonym jschar = "16 word"
type_synonym jsstring = "jschar list"

definition cc :: "char \<Rightarrow> jschar" where
  "cc c = of_char c"

definition ascii :: "string \<Rightarrow> jsstring" where
  "ascii cs = map cc cs"

text \<open>
  Numbers: the three special values and the finite ones; \<open>Finite 0\<close> stands for both
  zeros, which no operation of this file tells apart.
\<close>

datatype jsnum = NaN | PosInfinity | NegInfinity | Finite real

text \<open>
  The values that reach the handlers: request bodies, query and path parameters, and
  the arguments the model layer passes to callbacks. Property names are the
  identifiers of the source and are kept as plain strings; an object is the list of
  its own properties in insertion order.
\<close>

datatype jsval =
    Undefined
  | Null
  | Bool bool
  | Num jsnum
  | Str jsstring
  | Arr "jsval list"
  | Obj "(string \<times> jsval) list"

datatype error = TypeError

text \<open>ToBoolean, as used by \<open>if (err)\<close>, \<open>!x\<close> and \<open>a || b\<close>.\<close>

fun truthy :: "jsval \<Rightarrow> bool" where
  "truthy Undefined = False"
| "truthy Null = False"
| "truthy (Bool b) = b"
| "truthy (Num NaN) = False"
| "truthy (Num PosInfinity) = True"
| "truthy (Num NegInfinity) = True"
| "truthy (Num (Finite r)) = (r \<noteq> 0)"
| "truthy (Str s) = (s \<noteq> [])"
| "truthy (Arr xs) = True"
| "truthy (Obj ps) = True"

text \<open>
  \<open>a || b\<close>: the left operand when it is truthy, otherwise the right one, which is
  evaluated only then (and may raise).
\<close>

definition js_or :: "jsval \<Rightarrow> error + jsval \<Rightarrow> error + jsval" where
  "js_or a b = (if truthy a then Inr a else b)"

text \<open>
  Reading \<open>v.k\<close>. Reading a property of \<open>undefined\<close> or \<open>null\<close> raises a TypeError; a
  primitive has none of the properties this file reads except the \<open>length\<close> of a
  string; an array has its \<open>length\<close>. The names read by the source (\<open>length\<close>,
  \<open>messages\<close>, \<open>username\<close>, \<open>facebookId\<close>, ...) are not inherited from a built-in
  prototype, so own properties decide.
\<close>

fun get_prop :: "jsval \<Rightarrow> string \<Rightarrow> error + jsval" where
  "get_prop Undefined k = Inl TypeError"
| "get_prop Null k = Inl TypeError"
| "get_prop (Bool b) k = Inr Undefined"
| "get_prop (Num n) k = Inr Undefined"
| "get_prop (Str s) k =
     Inr (if k = ''length'' then Num (Finite (real (length s))) else Undefined)"
| "get_prop (Arr xs) k =
     Inr (if k = ''length'' then Num (Finite (real (length xs))) else Undefined)"
| "get_prop (Obj ps) k =
     Inr (case map_of ps k of None \<Rightarrow> Undefined | Some v \<Rightarrow> v)"

text \<open>
  Writing \<open>v.k = x\<close> under the file's \<open>"use strict"\<close>: a TypeError on \<open>undefined\<close>,
  \<open>null\<close> and on a primitive; on an object the property is replaced in place or
  appended. A named property written to an array is not part of its elements.
\<close>

fun set_prop :: "jsval \<Rightarrow> string \<Rightarrow> jsval \<Rightarrow> error + jsval" where
  "set_prop (Obj ps) k x = Inr (Obj (AList.update k x ps))"
| "set_prop (Arr xs) k x = Inr (Arr xs)"
| "set_prop v k x = Inl TypeError"

text \<open>
  ToString. The text of a finite number is the runtime's business and is a parameter
  \<open>n2s\<close>. An array is joined with commas, \<open>undefined\<close> and \<open>null\<close> elements giving the
  empty string. An object of a parsed body prints as \<open>[object Object]\<close> unless an own
  \<open>toString\<close> property (never callable in parsed data) hides the inherited method, in
  which case the conversion raises a TypeError.
\<close>

fun to_string :: "(real \<Rightarrow> jsstring) \<Rightarrow> jsval \<Rightarrow> error + jsstring"
  and join :: "(real \<Rightarrow> jsstring) \<Rightarrow> jsval list \<Rightarrow> error + jsstring"
where
  "to_string n2s Undefined = Inr (ascii ''undefined'')"
| "to_string n2s Null = Inr (ascii ''null'')"
| "to_string n2s (Bool b) = Inr (if b then ascii ''true'' else ascii ''false'')"
| "to_string n2s (Num NaN) = Inr (ascii ''NaN'')"
| "to_string n2s (Num PosInfinity) = Inr (ascii ''Infinity'')"
| "to_string n2s (Num NegInfinity) = Inr (ascii ''-Infinity'')"
| "to_string n2s (Num (Finite r)) = Inr (n2s r)"
| "to_string n2s (Str s) = Inr s"
| "to_string n2s (Arr xs) = join n2s xs"
| "to_string n2s (Obj ps) =
     (if map_of ps ''toString'' = None then Inr (ascii ''[object Object]'')
      else Inl TypeError)"
| "join n2s [] = Inr []"
| "join n2s (x # xs) =
     (case (if x = Undefined \<or> x = Null then Inr [] else to_string n2s x) of
        Inl e \<Rightarrow> Inl e
      | Inr a \<Rightarrow>
          (if xs = [] then Inr a
           else (case join n2s xs of
                   Inl e \<Rightarrow> Inl e
                 | Inr b \<Rightarrow> Inr (a @ ascii '','' @ b))))"

section \<open>Regular expressions\<close>

text \<open>
  The fragment of the pattern language that line 163 uses: the assertions \<open>^\<close> and
  \<open>$\<close> (no multiline flag), a character class made of ranges, a bounded quantifier
  \<open>{lo,hi}\<close> and concatenation.
\<close>

datatype regex =
    Bol
  | Eol
  | Class "(jschar \<times> jschar) list"
  | Quant regex nat nat
  | Seq regex regex

definition in_class :: "(jschar \<times> jschar) list \<Rightarrow> jschar \<Rightarrow> bool" where
  "in_class rs c = list_ex (\<lambda>(lo, hi). lo \<le> c \<and> c \<le> hi) rs"

text \<open>
  \<open>ends r s i\<close> lists every index at which a match of \<open>r\<close> that starts at index \<open>i\<close>
  of \<open>s\<close> can end, in the order a backtracking matcher tries them (a greedy
  quantifier takes another iteration before it stops). An iteration that matches the
  empty string adds no end index that stopping at once does not give, so the rule
  that forbids such iterations needs no case of its own.
\<close>

fun rep_ends :: "(nat \<Rightarrow> nat list) \<Rightarrow> nat \<Rightarrow> nat \<Rightarrow> nat \<Rightarrow> nat list" where
  "rep_ends m lo 0 i = (if lo = 0 then [i] else [])"
| "rep_ends m lo (Suc hi) i =
     concat (map (rep_ends m (lo - 1) hi) (m i)) @ (if lo = 0 then [i] else [])"

fun ends :: "regex \<Rightarrow> jsstring \<Rightarrow> nat \<Rightarrow> nat list" where
  "ends Bol s i = (if i = 0 then [i] else [])"
| "ends Eol s i = (if i = length s then [i] else [])"
| "ends (Class rs) s i =
     (if i < length s \<and> in_class rs (s ! i) then [Suc i] else [])"
| "ends (Quant r lo hi) s i = rep_ends (ends r s) lo hi i"
| "ends (Seq a b) s i = concat (map (ends b s) (ends a s i))"

text \<open>
  Matching a pattern without the global or sticky flag against a string: a match is
  attempted at every start index from 0 to the length of the string.
\<close>

definition regex_exec :: "regex \<Rightarrow> jsstring \<Rightarrow> bool" where
  "regex_exec r s = list_ex (\<lambda>i. ends r s i \<noteq> []) [0..<Suc (length s)]"

text \<open>\<open>re.test(v)\<close>: the argument is converted to a string first.\<close>

definition regex_test :: "(real \<Rightarrow> jsstring) \<Rightarrow> regex \<Rightarrow> jsval \<Rightarrow> error + bool" where
  "regex_test n2s r v =
     (case to_string n2s v of Inl e \<Rightarrow> Inl e | Inr s \<Rightarrow> Inr (regex_exec r s))"

text \<open>Line 163: \<^verbatim>\<open>/^[a-zA-Z]{1}[a-zA-Z0-9_]{4,15}$/\<close>.\<close>

definition username_re :: regex where
  "username_re =
     Seq Bol
    (Seq (Quant (Class [(cc CHR ''a'', cc CHR ''z''), (cc CHR ''A'', cc CHR ''Z'')]) 1 1)
    (Seq (Quant (Class [(cc CHR ''a'', cc CHR ''z''), (cc CHR ''A'', cc CHR ''Z''),
                        (cc CHR ''0'', cc CHR ''9''), (cc CHR ''_'', cc CHR ''_'')]) 4 15)
         Eol))"

text \<open>
  The format rule in the words of the specification: a leading ASCII letter followed
  by 4 to 15 characters that are ASCII letters, digits or the underscore.
\<close>

definition ascii_letter :: "jschar \<Rightarrow> bool" where
  "ascii_letter c = ((0x41 \<le> c \<and> c \<le> 0x5A) \<or> (0x61 \<le> c \<and> c \<le> 0x7A))"

definition ascii_digit :: "jschar \<Rightarrow> bool" where
  "ascii_digit c = (0x30 \<le> c \<and> c \<le> 0x39)"

definition word_char :: "jschar \<Rightarrow> bool" where
  "word_char c = (ascii_letter c \<or> ascii_digit c \<or> c = 0x5F)"

fun username_format :: "jsstring \<Rightarrow> bool" where
  "username_format [] = False"
| "username_format (c # cs) =
     (ascii_letter c \<and> 4 \<le> length cs \<and> length cs \<le> 15 \<and> list_all word_char cs)"

section \<open>Requests, responses and the model layer\<close>

text \<open>
  The parts of an express request the handlers read: \<open>req.query\<close>, \<open>req.params\<close>,
  \<open>req.body\<close> and the session's \<open>req.user\<close>.
\<close>

record request =
  query :: jsval
  params :: jsval
  body :: jsval
  user :: jsval

text \<open>
  What a handler hands to the response object: \<open>res.problem(status, title, detail)\<close>
  or \<open>res.json(status, body)\<close>, with the arguments the call leaves out as \<open>None\<close>.
\<close>

datatype response =
    Problem nat "string option" "string option"
  | Json nat "jsval option"

text \<open>The members of the \<open>http-status\<close> package the file uses.\<close>

definition OK :: nat where "OK = 200"
definition NO_CONTENT :: nat where "NO_CONTENT = 204"
definition BAD_REQUEST :: nat where "BAD_REQUEST = 400"
definition METHOD_NOT_ALLOWED :: nat where "METHOD_NOT_ALLOWED = 405"
definition INTERNAL_SERVER_ERROR :: nat where "INTERNAL_SERVER_ERROR = 500"

text \<open>
  The calls into the model module \<open>../models/user\<close>, whose behaviour is left open:
  \<open>User.fb(id, cb)\<close>, \<open>user.save(cb)\<close>, \<open>user.remove(cb)\<close>,
  \<open>User.publicList(skip, take, cb)\<close>, \<open>User.count(filter, cb)\<close> and
  \<open>User.getMessages(id, cb)\<close>. Each is taken to invoke its callback at most once, with
  two arguments \<open>(err, result)\<close> that may be any values.
\<close>

datatype call =
    Fb jsval
  | Save jsval
  | Remove jsval
  | PublicList jsval jsval
  | Count jsval
  | GetMessages jsval

text \<open>
  What is left of the runtime and of the model layer is a parameter: the text of a
  finite number and the constant \<open>User.States.ONLINE\<close>.
\<close>

record env =
  num2str :: "real \<Rightarrow> jsstring"
  States_ONLINE :: jsval

text \<open>
  A handler is a tree of effects: it responds, raises an exception that nothing in
  the file catches, writes a property of the user document it resolved, or calls the
  model layer and goes on in the callback.
\<close>

datatype prog =
    Respond response
  | Raise error
  | Assign string jsval prog
  | Call call "jsval \<Rightarrow> jsval \<Rightarrow> prog"

definition attempt :: "error + 'a \<Rightarrow> ('a \<Rightarrow> prog) \<Rightarrow> prog" where
  "attempt m k = (case m of Inl e \<Rightarrow> Raise e | Inr x \<Rightarrow> k x)"

text \<open>\<open>obj.k = x\<close>, followed by the rest of the handler on the object as written.\<close>

definition assign :: "jsval \<Rightarrow> string \<Rightarrow> jsval \<Rightarrow> (jsval \<Rightarrow> prog) \<Rightarrow> prog" where
  "assign obj k x cont =
     (case set_prop obj k x of Inl e \<Rightarrow> Raise e | Inr obj' \<Rightarrow> Assign k x (cont obj'))"

text \<open>
  \<open>obj.save(cb)\<close> and \<open>obj.remove(cb)\<close>: an object answered by the model layer is a
  document and has both methods; on any other value the call raises a TypeError.
\<close>

fun invoke :: "jsval \<Rightarrow> (jsval \<Rightarrow> call) \<Rightarrow> (jsval \<Rightarrow> jsval \<Rightarrow> prog) \<Rightarrow> prog" where
  "invoke (Obj ps) method cb = Call (method (Obj ps)) cb"
| "invoke v method cb = Raise TypeError"

section \<open>The handlers\<close>

text \<open>\<open>exports.create\<close>, lines 15-19.\<close>

definition create :: "request \<Rightarrow> prog" where
  "create req =
     Respond (Problem METHOD_NOT_ALLOWED
       (Some ''You're not allowed to create users on this system'')
       (Some ''Users are created via 3rd party (Facebook) authentication''))"

text \<open>\<open>exports.list\<close>, lines 30-49, from the innermost callback outwards.\<close>

definition list_count_cb :: "jsval \<Rightarrow> jsval \<Rightarrow> jsval \<Rightarrow> prog" where
  "list_count_cb results err count =
     attempt (js_or count (Inr (Num (Finite 0)))) (\<lambda>total.
       Respond (Json OK (Some (Obj
         [(''meta'', Obj [(''total'', total)]), (''results'', results)]))))"

definition list_cb :: "jsval \<Rightarrow> jsval \<Rightarrow> prog" where
  "list_cb err results =
     (if truthy err then
        Respond (Problem INTERNAL_SERVER_ERROR
          (Some ''Unexpected problem'')
          (Some ''Could not list users due to internal error''))
      else if results = Null then Respond (Json NO_CONTENT None)
      else attempt (get_prop results ''length'') (\<lambda>n.
        if n = Num (Finite 0) then Respond (Json NO_CONTENT None)
        else Call (Count (Obj [])) (list_count_cb results)))"

definition list :: "request \<Rightarrow> prog" where
  "list req =
     attempt (get_prop (query req) ''skip'') (\<lambda>skip.
     attempt (get_prop (query req) ''take'') (\<lambda>take.
       Call (PublicList skip take) list_cb))"

text \<open>\<open>exports.update\<close>, lines 149-185.\<close>

definition update_save_cb :: "jsval \<Rightarrow> jsval \<Rightarrow> prog" where
  "update_save_cb err saved = Respond (Json OK (Some saved))"

text \<open>Lines 174-183, on the document \<open>u0\<close> as the lines before left it.\<close>

definition update_fields :: "env \<Rightarrow> jsval \<Rightarrow> jsval \<Rightarrow> prog" where
  "update_fields e upd u0 =
     assign u0 ''registrationDone'' (Bool True) (\<lambda>u1.
     attempt (get_prop upd ''firstName'') (\<lambda>f.
     attempt (js_or f (get_prop u1 ''firstName'')) (\<lambda>firstName.
     assign u1 ''firstName'' firstName (\<lambda>u2.
     attempt (get_prop upd ''lastName'') (\<lambda>l.
     attempt (js_or l (get_prop u2 ''lastName'')) (\<lambda>lastName.
     assign u2 ''lastName'' lastName (\<lambda>u3.
     attempt (get_prop upd ''email'') (\<lambda>m.
     attempt (js_or m (get_prop u3 ''email'')) (\<lambda>email.
     assign u3 ''email'' email (\<lambda>u4.
     assign u4 ''state'' (States_ONLINE e) (\<lambda>u5.
     attempt (get_prop upd ''avatar'') (\<lambda>avatar.
     assign u5 ''avatar'' avatar (\<lambda>u6.
     invoke u6 Save update_save_cb)))))))))))))"

text \<open>The callback of \<open>User.fb\<close>, lines 151-184; \<open>doc\<close> is its argument \<open>user\<close>.\<close>

definition update_cb :: "env \<Rightarrow> jsval \<Rightarrow> jsval \<Rightarrow> jsval \<Rightarrow> prog" where
  "update_cb e upd err doc =
     (if truthy err \<or> doc = Null then
        Respond (Problem BAD_REQUEST
          (Some ''Could not save user information'')
          (Some ''There was an error processing the request to save your information''))
      else attempt (get_prop doc ''registrationDone'') (\<lambda>done.
        if \<not> truthy done then
          attempt (get_prop upd ''username'') (\<lambda>tested.
          attempt (regex_test (num2str e) username_re tested) (\<lambda>matches.
            if matches = False then
              Respond (Problem BAD_REQUEST
                (Some ''Invalid Username'')
                (Some ''User names must be 5-16 characters''))
            else
              attempt (get_prop upd ''username'') (\<lambda>username.
              assign doc ''username'' username (update_fields e upd))))
        else update_fields e upd doc))"

definition update :: "env \<Rightarrow> request \<Rightarrow> prog" where
  "update e req =
     (let upd = body req in
      attempt (get_prop (user req) ''facebookId'') (\<lambda>facebookId.
        Call (Fb facebookId) (update_cb e upd)))"

text \<open>\<open>exports.delete\<close>, lines 196-210.\<close>

definition delete_remove_cb :: "jsval \<Rightarrow> jsval \<Rightarrow> prog" where
  "delete_remove_cb err result = Respond (Json OK (Some result))"

definition delete_cb :: "jsval \<Rightarrow> jsval \<Rightarrow> prog" where
  "delete_cb err doc =
     (if truthy err \<or> doc = Null then
        Respond (Problem BAD_REQUEST
          (Some ''Could not delete user'')
          (Some ''There was an error processing the request to save your information''))
      else invoke doc Remove delete_remove_cb)"

definition delete :: "request \<Rightarrow> prog" where
  "delete req =
     attempt (get_prop (user req) ''facebookId'') (\<lambda>facebookId.
       Call (Fb facebookId) delete_cb)"

text \<open>\<open>exports.getMessages\<close>, lines 221-231.\<close>

definition getMessages_cb :: "jsval \<Rightarrow> jsval \<Rightarrow> prog" where
  "getMessages_cb err doc =
     (if truthy err \<or> doc = Null then Respond (Problem NO_CONTENT None None)
      else attempt (get_prop doc ''messages'') (\<lambda>messages.
        if messages = Null then Respond (Problem NO_CONTENT None None)
        else Respond (Json OK (Some doc))))"

definition getMessages :: "request \<Rightarrow> prog" where
  "getMessages req =
     attempt (get_prop (params req) ''mid'') (\<lambda>mid.
       Call (GetMessages mid) getMessages_cb)"

section \<open>Running a handler\<close>

text \<open>
  The model layer is the environment: a run is decided by the answers \<open>(err, result)\<close>
  its callbacks receive, in the order of the calls. The trace lists what the handler
  did; a call whose answer never comes ends it.
\<close>

datatype event =
    Called call
  | Assigned string jsval
  | Responded response
  | Raised error

fun trace :: "prog \<Rightarrow> (jsval \<times> jsval) list \<Rightarrow> event list" where
  "trace (Respond r) answers = [Responded r]"
| "trace (Raise x) answers = [Raised x]"
| "trace (Assign k v p) answers = Assigned k v # trace p answers"
| "trace (Call c cb) [] = [Called c]"
| "trace (Call c cb) (a # answers) = Called c # trace (cb (fst a) (snd a)) answers"

section \<open>Observations on values and traces\<close>

text \<open>The value a successful read of \<open>v.k\<close> gives, for stating what was read.\<close>

definition field :: "jsval \<Rightarrow> string \<Rightarrow> jsval" where
  "field v k = (case get_prop v k of Inl x \<Rightarrow> Undefined | Inr x \<Rightarrow> x)"

text \<open>
  The merge rule in the words of the specification: the body's value when it is not
  falsy, otherwise the value the document had.
\<close>

definition merged :: "jsval \<Rightarrow> jsval \<Rightarrow> string \<Rightarrow> jsval" where
  "merged upd doc k = (if truthy (field upd k) then field upd k else field doc k)"

text \<open>
  What lines 174-179 leave in the document \<open>u\<close>, given the body \<open>upd\<close> and the
  document \<open>doc\<close> that \<open>User.fb\<close> answered.
\<close>

definition profile_written :: "env \<Rightarrow> jsval \<Rightarrow> jsval \<Rightarrow> jsval \<Rightarrow> bool" where
  "profile_written e upd doc u =
     (get_prop u ''registrationDone'' = Inr (Bool True)
      \<and> get_prop u ''state'' = Inr (States_ONLINE e)
      \<and> get_prop u ''firstName'' = Inr (merged upd doc ''firstName'')
      \<and> get_prop u ''lastName'' = Inr (merged upd doc ''lastName'')
      \<and> get_prop u ''email'' = Inr (merged upd doc ''email'')
      \<and> get_prop u ''avatar'' = Inr (field upd ''avatar''))"

text \<open>The identities a run asks \<open>User.fb\<close> to resolve, in order.\<close>

fun resolved_ids :: "event list \<Rightarrow> jsval list" where
  "resolved_ids [] = []"
| "resolved_ids (Called (Fb i) # t) = i # resolved_ids t"
| "resolved_ids (ev # t) = resolved_ids t"

text \<open>The properties that lines 171-179 write.\<close>

definition profile_fields :: "string list" where
  "profile_fields =
     [''username'', ''registrationDone'', ''firstName'', ''lastName'', ''email'',
      ''state'', ''avatar'']"

section \<open>The username pattern\<close>

lemma in_class_letter:
  "in_class [(cc CHR ''a'', cc CHR ''z''), (cc CHR ''A'', cc CHR ''Z'')] c = ascii_letter c"
  by (auto simp: in_class_def ascii_letter_def cc_def)

lemma in_class_word:
  "in_class [(cc CHR ''a'', cc CHR ''z''), (cc CHR ''A'', cc CHR ''Z''),
             (cc CHR ''0'', cc CHR ''9''), (cc CHR ''_'', cc CHR ''_'')] c = word_char c"
  by (auto simp: in_class_def word_char_def ascii_letter_def ascii_digit_def cc_def)

lemma rep_ends_single:
  assumes m: "\<And>a. m a = (if a < length s \<and> P (s ! a) then [Suc a] else [])"
  shows "i \<le> length s \<Longrightarrow>
   j \<in> set (rep_ends m lo hi i) \<longleftrightarrow>
     (i \<le> j \<and> lo \<le> j - i \<and> j - i \<le> hi \<and> j \<le> length s \<and>
      (\<forall>k. i \<le> k \<and> k < j \<longrightarrow> P (s ! k)))"
proof (induction hi arbitrary: lo i)
  case 0
  then show ?case by auto
next
  case (Suc hi)
  show ?case
  proof (cases "i < length s \<and> P (s ! i)")
    case True
    then have step: "m i = [Suc i]" by (simp add: m)
    have le: "Suc i \<le> length s" using True by simp
    have "j \<in> set (rep_ends m lo (Suc hi) i) \<longleftrightarrow>
          j \<in> set (rep_ends m (lo - 1) hi (Suc i)) \<or> (lo = 0 \<and> j = i)"
      by (auto simp: step)
    also have "\<dots> \<longleftrightarrow>
       (Suc i \<le> j \<and> lo - 1 \<le> j - Suc i \<and> j - Suc i \<le> hi \<and> j \<le> length s \<and>
        (\<forall>k. Suc i \<le> k \<and> k < j \<longrightarrow> P (s ! k))) \<or> (lo = 0 \<and> j = i)"
      using Suc.IH [OF le, of "lo - 1"] by simp
    also have "\<dots> \<longleftrightarrow>
       (i \<le> j \<and> lo \<le> j - i \<and> j - i \<le> Suc hi \<and> j \<le> length s \<and>
        (\<forall>k. i \<le> k \<and> k < j \<longrightarrow> P (s ! k)))"
    proof -
      have all: "(\<forall>k. i \<le> k \<and> k < j \<longrightarrow> P (s ! k)) \<longleftrightarrow>
                 (\<forall>k. Suc i \<le> k \<and> k < j \<longrightarrow> P (s ! k))"
        using True by (metis Suc_leI le_neq_implies_less Suc_leD)
      show ?thesis using Suc.prems unfolding all by auto
    qed
    finally show ?thesis .
  next
    case False
    then have step: "m i = []" by (auto simp: m)
    have "j \<in> set (rep_ends m lo (Suc hi) i) \<longleftrightarrow> (lo = 0 \<and> j = i)"
      by (auto simp: step)
    also have "\<dots> \<longleftrightarrow>
       (i \<le> j \<and> lo \<le> j - i \<and> j - i \<le> Suc hi \<and> j \<le> length s \<and>
        (\<forall>k. i \<le> k \<and> k < j \<longrightarrow> P (s ! k)))"
    proof (cases "i < length s")
      case True
      with False have nP: "\<not> P (s ! i)" by simp
      show ?thesis
      proof
        assume "lo = 0 \<and> j = i"
        then show "i \<le> j \<and> lo \<le> j - i \<and> j - i \<le> Suc hi \<and> j \<le> length s \<and>
          (\<forall>k. i \<le> k \<and> k < j \<longrightarrow> P (s ! k))"
          using Suc.prems by auto
      next
        assume r: "i \<le> j \<and> lo \<le> j - i \<and> j - i \<le> Suc hi \<and> j \<le> length s \<and>
          (\<forall>k. i \<le> k \<and> k < j \<longrightarrow> P (s ! k))"
        have "\<not> i < j" using r nP by auto
        with r show "lo = 0 \<and> j = i" by auto
      qed
    next
      case False
      with Suc.prems have "i = length s" by simp
      then show ?thesis by auto
    qed
    finally show ?thesis .
  qed
qed

lemma ends_quant_class:
  "i \<le> length s \<Longrightarrow>
   j \<in> set (ends (Quant (Class rs) lo hi) s i) \<longleftrightarrow>
     (i \<le> j \<and> lo \<le> j - i \<and> j - i \<le> hi \<and> j \<le> length s \<and>
      (\<forall>k. i \<le> k \<and> k < j \<longrightarrow> in_class rs (s ! k)))"
  using rep_ends_single [of "ends (Class rs) s" s "in_class rs" i j lo hi] by simp

lemma ends_username_re:
  "ends username_re s i \<noteq> [] \<longleftrightarrow>
     (i = 0 \<and> 5 \<le> length s \<and> length s \<le> 16 \<and> ascii_letter (s ! 0) \<and>
      (\<forall>k. 1 \<le> k \<and> k < length s \<longrightarrow> word_char (s ! k)))"
proof (cases "i = 0")
  case False
  then show ?thesis by (simp add: username_re_def)
next
  case True
  let ?L = "Class [(cc CHR ''a'', cc CHR ''z''), (cc CHR ''A'', cc CHR ''Z'')]"
  let ?W = "Class [(cc CHR ''a'', cc CHR ''z''), (cc CHR ''A'', cc CHR ''Z''),
                   (cc CHR ''0'', cc CHR ''9''), (cc CHR ''_'', cc CHR ''_'')]"
  have first: "ends (Quant ?L 1 1) s 0 = (if 0 < length s \<and> ascii_letter (s ! 0) then [1] else [])"
    by (simp add: in_class_letter del: ends.simps(3)) (simp add: in_class_letter)
  have "ends username_re s 0 \<noteq> [] \<longleftrightarrow>
        (\<exists>j \<in> set (ends (Quant ?L 1 1) s 0). \<exists>e \<in> set (ends (Quant ?W 4 15) s j). e = length s)"
    unfolding username_re_def by (auto simp del: ends.simps(3,4))
  also have "\<dots> \<longleftrightarrow> (0 < length s \<and> ascii_letter (s ! 0) \<and>
        length s \<in> set (ends (Quant ?W 4 15) s 1))"
    unfolding first by auto
  also have "\<dots> \<longleftrightarrow> (5 \<le> length s \<and> length s \<le> 16 \<and> ascii_letter (s ! 0) \<and>
      (\<forall>k. 1 \<le> k \<and> k < length s \<longrightarrow> word_char (s ! k)))"
  proof (cases "0 < length s")
    case False
    then show ?thesis by simp
  next
    case True
    then have "1 \<le> length s" by (cases s) auto
    from ends_quant_class [OF this, of "length s" _ 4 15]
    show ?thesis using True by (auto simp: in_class_word)
  qed
  finally show ?thesis using True by simp
qed

lemma regex_exec_username_re:
  "regex_exec username_re s = username_format s"
proof -
  have "regex_exec username_re s \<longleftrightarrow> (\<exists>i \<le> length s. ends username_re s i \<noteq> [])"
    unfolding regex_exec_def list_ex_iff set_upt
    by (auto simp: less_Suc_eq_le simp del: ends.simps)
  also have "\<dots> \<longleftrightarrow> (5 \<le> length s \<and> length s \<le> 16 \<and> ascii_letter (s ! 0) \<and>
      (\<forall>k. 1 \<le> k \<and> k < length s \<longrightarrow> word_char (s ! k)))"
    unfolding ends_username_re by auto
  also have "\<dots> \<longleftrightarrow> username_format s"
  proof (cases s)
    case Nil
    then show ?thesis by simp
  next
    case (Cons c cs)
    have "(\<forall>k. 1 \<le> k \<and> k < length (c # cs) \<longrightarrow> word_char ((c # cs) ! k)) \<longleftrightarrow>
          (\<forall>k < length cs. word_char (cs ! k))"
    proof
      assume a: "\<forall>k. 1 \<le> k \<and> k < length (c # cs) \<longrightarrow> word_char ((c # cs) ! k)"
      show "\<forall>k < length cs. word_char (cs ! k)"
      proof (intro allI impI)
        fix k assume "k < length cs"
        then have "1 \<le> Suc k \<and> Suc k < length (c # cs)" by simp
        with a have "word_char ((c # cs) ! Suc k)" by blast
        then show "word_char (cs ! k)" by simp
      qed
    next
      assume a: "\<forall>k < length cs. word_char (cs ! k)"
      show "\<forall>k. 1 \<le> k \<and> k < length (c # cs) \<longrightarrow> word_char ((c # cs) ! k)"
      proof (intro allI impI)
        fix k assume k: "1 \<le> k \<and> k < length (c # cs)"
        then obtain k' where "k = Suc k'" by (cases k) auto
        with k a show "word_char ((c # cs) ! k)" by simp
      qed
    qed
    then show ?thesis using Cons by (auto simp: list_all_length)
  qed
  finally show ?thesis .
qed

text \<open>
  C1. On a string argument the test of line 163 accepts exactly the strings of the
  format rule: a leading ASCII letter followed by 4 to 15 letters, digits or
  underscores, 5 to 16 code units in all. The empty string, a string that starts
  with a digit or an underscore, and a string of length 4 or 17 are rejected.
\<close>

theorem username_validator_accepts_exactly:
  "regex_test n2s username_re (Str s) = Inr (username_format s)
   \<and> (username_format s \<longrightarrow> 5 \<le> length s \<and> length s \<le> 16)
   \<and> regex_test n2s username_re (Str []) = Inr False
   \<and> (ascii_digit c \<or> c = cc CHR ''_'' \<longrightarrow>
        regex_test n2s username_re (Str (c # cs)) = Inr False)
   \<and> (length s = 4 \<or> length s = 17 \<longrightarrow>
        regex_test n2s username_re (Str s) = Inr False)"
proof -
  have eq: "\<And>t. regex_test n2s username_re (Str t) = Inr (username_format t)"
    by (simp add: regex_test_def regex_exec_username_re)
  have len: "\<And>t. username_format t \<Longrightarrow> 5 \<le> length t \<and> length t \<le> 16"
    by (case_tac t) auto
  have lead: "ascii_digit c \<or> c = cc CHR ''_'' \<Longrightarrow> \<not> ascii_letter c"
    by (auto simp: ascii_letter_def ascii_digit_def cc_def word_le_nat_alt)
  show ?thesis
    using len [of s] lead by (auto simp: eq)
qed

theorem username_validator_accepts_exactly_witness:
  "regex_test (\<lambda>r. []) username_re (Str (ascii ''abcde'')) = Inr True
   \<and> regex_test (\<lambda>r. []) username_re (Str (ascii ''Abc_4567890123456'')) = Inr False
   \<and> regex_test (\<lambda>r. []) username_re (Str (ascii ''Abc_456789012345'')) = Inr True
   \<and> regex_test (\<lambda>r. []) username_re (Str (ascii ''9lives'')) = Inr False
   \<and> regex_test (\<lambda>r. []) username_re (Str (ascii ''_name'')) = Inr False
   \<and> regex_test (\<lambda>r. []) username_re (Str (ascii ''abcd'')) = Inr False"
  using username_validator_accepts_exactly [of "\<lambda>r. []" "ascii ''abcde''"]
    username_validator_accepts_exactly [of "\<lambda>r. []" "ascii ''Abc_4567890123456''"]
    username_validator_accepts_exactly [of "\<lambda>r. []" "ascii ''Abc_456789012345''"]
    username_validator_accepts_exactly [of "\<lambda>r. []" "ascii ''9lives''" "cc CHR ''9''" "ascii ''lives''"]
    username_validator_accepts_exactly [of "\<lambda>r. []" "ascii ''_name''" "cc CHR ''_''" "ascii ''name''"]
    username_validator_accepts_exactly [of "\<lambda>r. []" "ascii ''abcd''"]
  by (simp add: ascii_def cc_def ascii_letter_def ascii_digit_def word_char_def)

section \<open>Create\<close>

text \<open>
  C9. Whatever the request, \<open>create\<close> hands the response object a problem with status
  405 (method not allowed), the title "You're not allowed to create users on this
  system" and a detail saying that users come from third-party authentication; it
  makes no call into the model layer.
\<close>

theorem create_always_method_not_allowed:
  "trace (create req) answers =
     [Responded (Problem 405
        (Some ''You're not allowed to create users on this system'')
        (Some ''Users are created via 3rd party (Facebook) authentication''))]"
  by (simp add: create_def METHOD_NOT_ALLOWED_def)

section \<open>Update: the shape of a run\<close>

lemma get_prop_field:
  "v \<noteq> Undefined \<Longrightarrow> v \<noteq> Null \<Longrightarrow> get_prop v k = Inr (field v k)"
  by (cases v) (simp_all add: field_def)

lemma get_prop_Inl:
  "get_prop v k = Inl x \<longleftrightarrow> (v = Undefined \<or> v = Null)"
  by (cases v; cases x) simp_all

lemma get_prop_Inr_field:
  "get_prop v k = Inr x \<Longrightarrow> v \<noteq> Undefined \<and> v \<noteq> Null \<and> x = field v k"
  by (cases v) (auto simp: field_def)

lemma field_Obj:
  "field (Obj ps) k = (case map_of ps k of None \<Rightarrow> Undefined | Some v \<Rightarrow> v)"
  by (simp add: field_def)

lemma update_fields_Obj:
  assumes "upd \<noteq> Undefined" "upd \<noteq> Null"
  shows "\<exists>ps'. update_fields e upd (Obj ps) =
     Assign ''registrationDone'' (Bool True)
    (Assign ''firstName'' (merged upd (Obj ps) ''firstName'')
    (Assign ''lastName'' (merged upd (Obj ps) ''lastName'')
    (Assign ''email'' (merged upd (Obj ps) ''email'')
    (Assign ''state'' (States_ONLINE e)
    (Assign ''avatar'' (field upd ''avatar'')
    (Call (Save (Obj ps')) update_save_cb))))))
   \<and> map_of ps' = (map_of ps)
       (''registrationDone'' \<mapsto> Bool True,
        ''firstName'' \<mapsto> merged upd (Obj ps) ''firstName'',
        ''lastName'' \<mapsto> merged upd (Obj ps) ''lastName'',
        ''email'' \<mapsto> merged upd (Obj ps) ''email'',
        ''state'' \<mapsto> States_ONLINE e,
        ''avatar'' \<mapsto> field upd ''avatar'')"
  using assms
  by (simp add: update_fields_def assign_def attempt_def js_or_def get_prop_field
      merged_def field_Obj update_conv' del: get_prop.simps)

lemma update_fields_Arr:
  assumes "upd \<noteq> Undefined" "upd \<noteq> Null"
  shows "update_fields e upd (Arr xs) =
     Assign ''registrationDone'' (Bool True)
    (Assign ''firstName'' (merged upd (Arr xs) ''firstName'')
    (Assign ''lastName'' (merged upd (Arr xs) ''lastName'')
    (Assign ''email'' (merged upd (Arr xs) ''email'')
    (Assign ''state'' (States_ONLINE e)
    (Assign ''avatar'' (field upd ''avatar'')
    (Raise TypeError))))))"
  using assms
  by (simp add: update_fields_def assign_def attempt_def js_or_def get_prop_field
      merged_def del: get_prop.simps)

lemma update_fields_unreadable:
  assumes "upd = Undefined \<or> upd = Null"
  shows "update_fields e upd doc =
     (if (\<exists>xs. doc = Arr xs) \<or> (\<exists>ps. doc = Obj ps)
      then Assign ''registrationDone'' (Bool True) (Raise TypeError)
      else Raise TypeError)"
  using assms
  by (cases doc) (auto simp add: update_fields_def assign_def attempt_def)

lemma update_fields_primitive:
  assumes "\<forall>xs. doc \<noteq> Arr xs" "\<forall>ps. doc \<noteq> Obj ps"
  shows "update_fields e upd doc = Raise TypeError"
  using assms
  by (cases doc) (auto simp add: update_fields_def assign_def attempt_def)


lemma update_cb_cases:
  "update_cb e upd err doc =
     (if truthy err \<or> doc = Null then
        Respond (Problem BAD_REQUEST
          (Some ''Could not save user information'')
          (Some ''There was an error processing the request to save your information''))
      else if doc = Undefined then Raise TypeError
      else if truthy (field doc ''registrationDone'') then update_fields e upd doc
      else if upd = Undefined \<or> upd = Null then Raise TypeError
      else (case regex_test (num2str e) username_re (field upd ''username'') of
              Inl x \<Rightarrow> Raise x
            | Inr matches \<Rightarrow>
                if matches then
                  assign doc ''username'' (field upd ''username'') (update_fields e upd)
                else
                  Respond (Problem BAD_REQUEST
                    (Some ''Invalid Username'')
                    (Some ''User names must be 5-16 characters''))))"
proof (cases "truthy err \<or> doc = Null \<or> doc = Undefined")
  case True
  then show ?thesis by (auto simp: update_cb_def attempt_def)
next
  case False
  then have doc: "get_prop doc ''registrationDone'' = Inr (field doc ''registrationDone'')"
    by (simp add: get_prop_field)
  show ?thesis
  proof (cases "upd = Undefined \<or> upd = Null")
    case True
    then have "get_prop upd ''username'' = Inl TypeError" by auto
    then show ?thesis using True False doc
      by (auto simp: update_cb_def attempt_def simp del: get_prop.simps)
  next
    case readable: False
    then have "get_prop upd ''username'' = Inr (field upd ''username'')"
      by (simp add: get_prop_field)
    then show ?thesis using False doc readable
      by (auto simp: update_cb_def attempt_def simp del: get_prop.simps split: sum.splits)
  qed
qed

lemma trace_update_fields_Obj:
  assumes "upd \<noteq> Undefined" "upd \<noteq> Null"
  shows "\<exists>ps'. trace (update_fields e upd (Obj ps)) answers =
     [Assigned ''registrationDone'' (Bool True),
      Assigned ''firstName'' (merged upd (Obj ps) ''firstName''),
      Assigned ''lastName'' (merged upd (Obj ps) ''lastName''),
      Assigned ''email'' (merged upd (Obj ps) ''email''),
      Assigned ''state'' (States_ONLINE e),
      Assigned ''avatar'' (field upd ''avatar''),
      Called (Save (Obj ps'))]
     @ (case answers of [] \<Rightarrow> [] | a # rest \<Rightarrow> [Responded (Json OK (Some (snd a)))])
   \<and> map_of ps' = (map_of ps)
       (''registrationDone'' \<mapsto> Bool True,
        ''firstName'' \<mapsto> merged upd (Obj ps) ''firstName'',
        ''lastName'' \<mapsto> merged upd (Obj ps) ''lastName'',
        ''email'' \<mapsto> merged upd (Obj ps) ''email'',
        ''state'' \<mapsto> States_ONLINE e,
        ''avatar'' \<mapsto> field upd ''avatar'')"
proof -
  from update_fields_Obj [OF assms, of e ps] obtain ps' where
    p: "update_fields e upd (Obj ps) =
     Assign ''registrationDone'' (Bool True)
    (Assign ''firstName'' (merged upd (Obj ps) ''firstName'')
    (Assign ''lastName'' (merged upd (Obj ps) ''lastName'')
    (Assign ''email'' (merged upd (Obj ps) ''email'')
    (Assign ''state'' (States_ONLINE e)
    (Assign ''avatar'' (field upd ''avatar'')
    (Call (Save (Obj ps')) update_save_cb))))))"
    and m: "map_of ps' = (map_of ps)
       (''registrationDone'' \<mapsto> Bool True,
        ''firstName'' \<mapsto> merged upd (Obj ps) ''firstName'',
        ''lastName'' \<mapsto> merged upd (Obj ps) ''lastName'',
        ''email'' \<mapsto> merged upd (Obj ps) ''email'',
        ''state'' \<mapsto> States_ONLINE e,
        ''avatar'' \<mapsto> field upd ''avatar'')"
    by blast
  have "trace (update_fields e upd (Obj ps)) answers =
     [Assigned ''registrationDone'' (Bool True),
      Assigned ''firstName'' (merged upd (Obj ps) ''firstName''),
      Assigned ''lastName'' (merged upd (Obj ps) ''lastName''),
      Assigned ''email'' (merged upd (Obj ps) ''email''),
      Assigned ''state'' (States_ONLINE e),
      Assigned ''avatar'' (field upd ''avatar''),
      Called (Save (Obj ps'))]
     @ (case answers of [] \<Rightarrow> [] | a # rest \<Rightarrow> [Responded (Json OK (Some (snd a)))])"
    unfolding p by (cases answers) (simp_all add: update_save_cb_def)
  with m show ?thesis by blast
qed

lemma update_fields_no_save:
  assumes "(\<forall>ps. doc \<noteq> Obj ps) \<or> upd = Undefined \<or> upd = Null"
  shows "trace (update_fields e upd doc) answers = [Raised TypeError]
       \<or> trace (update_fields e upd doc) answers =
           [Assigned ''registrationDone'' (Bool True), Raised TypeError]
       \<or> trace (update_fields e upd doc) answers =
           [Assigned ''registrationDone'' (Bool True),
            Assigned ''firstName'' (merged upd doc ''firstName''),
            Assigned ''lastName'' (merged upd doc ''lastName''),
            Assigned ''email'' (merged upd doc ''email''),
            Assigned ''state'' (States_ONLINE e),
            Assigned ''avatar'' (field upd ''avatar''),
            Raised TypeError]"
proof (cases "upd = Undefined \<or> upd = Null")
  case True
  then show ?thesis by (auto simp: update_fields_unreadable)
next
  case False
  with assms have nobj: "\<forall>ps. doc \<noteq> Obj ps" by blast
  show ?thesis
  proof (cases "\<exists>xs. doc = Arr xs")
    case True
    then show ?thesis using False by (auto simp: update_fields_Arr)
  next
    case False
    then show ?thesis using nobj by (simp add: update_fields_primitive)
  qed
qed

lemma trace_update:
  "trace (update e req) ((err, doc) # answers) =
     (case get_prop (user req) ''facebookId'' of
        Inl x \<Rightarrow> [Raised x]
      | Inr i \<Rightarrow> Called (Fb i) # trace (update_cb e (body req) err doc) answers)"
  by (simp add: update_def attempt_def Let_def split: sum.splits)

lemma merged_other_key:
  "k \<noteq> k' \<Longrightarrow> merged upd (Obj (AList.update k' v ps)) k = merged upd (Obj ps) k"
  by (simp add: merged_def field_Obj update_conv')

lemma update_cb_save:
  assumes "Called (Save u) \<in> set (trace (update_cb e upd err doc) answers)"
  shows "\<exists>ps ps' pre. doc = Obj ps \<and> u = Obj ps' \<and> upd \<noteq> Undefined \<and> upd \<noteq> Null
       \<and> \<not> truthy err
       \<and> map_of ps' ''registrationDone'' = Some (Bool True)
       \<and> map_of ps' ''firstName'' = Some (merged upd doc ''firstName'')
       \<and> map_of ps' ''lastName'' = Some (merged upd doc ''lastName'')
       \<and> map_of ps' ''email'' = Some (merged upd doc ''email'')
       \<and> map_of ps' ''state'' = Some (States_ONLINE e)
       \<and> map_of ps' ''avatar'' = Some (field upd ''avatar'')
       \<and> map_of ps' ''username'' =
            (if truthy (field doc ''registrationDone'') then map_of ps ''username''
             else Some (field upd ''username''))
       \<and> (\<forall>k. k \<notin> set profile_fields \<longrightarrow> map_of ps' k = map_of ps k)
       \<and> trace (update_cb e upd err doc) answers =
            pre @ Called (Save u) #
              (case answers of [] \<Rightarrow> [] | a # rest \<Rightarrow> [Responded (Json OK (Some (snd a)))])
       \<and> (\<forall>ev \<in> set pre. \<exists>k v. ev = Assigned k v)
       \<and> (truthy (field doc ''registrationDone'') \<longrightarrow>
            (\<forall>v. Assigned ''username'' v \<notin> set pre))"
proof -
  let ?T = "trace (update_cb e upd err doc) answers"
  have ne: "\<not> (truthy err \<or> doc = Null)" "doc \<noteq> Undefined"
    using assms by (auto simp: update_cb_cases split: if_splits)
  show ?thesis
  proof (cases "truthy (field doc ''registrationDone'')")
    case True
    then have T: "?T = trace (update_fields e upd doc) answers"
      using ne by (simp add: update_cb_cases)
    have "\<not> ((\<forall>ps. doc \<noteq> Obj ps) \<or> upd = Undefined \<or> upd = Null)"
    proof
      assume "(\<forall>ps. doc \<noteq> Obj ps) \<or> upd = Undefined \<or> upd = Null"
      from update_fields_no_save [OF this, of e answers] assms show False
        unfolding T by auto
    qed
    then obtain ps where doc: "doc = Obj ps" and r: "upd \<noteq> Undefined" "upd \<noteq> Null"
      by blast
    from trace_update_fields_Obj [OF r, of e ps answers] obtain ps' where
      tr: "trace (update_fields e upd (Obj ps)) answers =
       [Assigned ''registrationDone'' (Bool True),
        Assigned ''firstName'' (merged upd (Obj ps) ''firstName''),
        Assigned ''lastName'' (merged upd (Obj ps) ''lastName''),
        Assigned ''email'' (merged upd (Obj ps) ''email''),
        Assigned ''state'' (States_ONLINE e),
        Assigned ''avatar'' (field upd ''avatar''),
        Called (Save (Obj ps'))]
       @ (case answers of [] \<Rightarrow> [] | a # rest \<Rightarrow> [Responded (Json OK (Some (snd a)))])"
      and m: "map_of ps' = (map_of ps)
         (''registrationDone'' \<mapsto> Bool True,
          ''firstName'' \<mapsto> merged upd (Obj ps) ''firstName'',
          ''lastName'' \<mapsto> merged upd (Obj ps) ''lastName'',
          ''email'' \<mapsto> merged upd (Obj ps) ''email'',
          ''state'' \<mapsto> States_ONLINE e,
          ''avatar'' \<mapsto> field upd ''avatar'')"
      by blast
    have "Called (Save u) \<in> set (trace (update_fields e upd doc) answers)"
      using assms unfolding T .
    then have u: "u = Obj ps'"
      unfolding doc tr by (cases answers) auto
    let ?pre = "[Assigned ''registrationDone'' (Bool True),
        Assigned ''firstName'' (merged upd (Obj ps) ''firstName''),
        Assigned ''lastName'' (merged upd (Obj ps) ''lastName''),
        Assigned ''email'' (merged upd (Obj ps) ''email''),
        Assigned ''state'' (States_ONLINE e),
        Assigned ''avatar'' (field upd ''avatar'')]"
    have shape: "?T = ?pre @ Called (Save u) #
        (case answers of [] \<Rightarrow> [] | a # rest \<Rightarrow> [Responded (Json OK (Some (snd a)))])"
      unfolding T unfolding doc tr u by simp
    have pre: "\<forall>ev \<in> set ?pre. \<exists>k v. ev = Assigned k v" by simp
    have nou: "\<forall>v. Assigned ''username'' v \<notin> set ?pre" by simp
    have other: "\<forall>k. k \<notin> set profile_fields \<longrightarrow> map_of ps' k = map_of ps k"
      unfolding m by (simp add: profile_fields_def)
    show ?thesis
      apply (rule exI [of _ ps], rule exI [of _ ps'], rule exI [of _ ?pre])
      using doc u r ne True shape pre nou other
      by (simp add: m)
  next
    case False
    have r: "upd \<noteq> Undefined" "upd \<noteq> Null"
      using assms ne False by (auto simp: update_cb_cases split: if_splits)
    have ok: "regex_test (num2str e) username_re (field upd ''username'') = Inr True"
      using assms ne False r
      by (auto simp: update_cb_cases split: if_splits sum.splits)
    let ?v = "field upd ''username''"
    have T0: "?T = trace (assign doc ''username'' ?v (update_fields e upd)) answers"
      using ne False r ok by (simp add: update_cb_cases)
    have "\<exists>ps. doc = Obj ps"
    proof (rule ccontr)
      assume n: "\<not> (\<exists>ps. doc = Obj ps)"
      show False
      proof (cases "\<exists>xs. doc = Arr xs")
        case True
        then obtain xs where "doc = Arr xs" by blast
        then have "?T = Assigned ''username'' ?v # trace (update_fields e upd (Arr xs)) answers"
          unfolding T0 by (simp add: assign_def)
        with assms r show False by (simp add: update_fields_Arr)
      next
        case False
        with n have "?T = [Raised TypeError]"
          unfolding T0 by (cases doc) (auto simp: assign_def)
        with assms show False by simp
      qed
    qed
    then obtain ps where doc: "doc = Obj ps" by blast
    let ?ps1 = "AList.update ''username'' ?v ps"
    have T: "?T = Assigned ''username'' ?v # trace (update_fields e upd (Obj ?ps1)) answers"
      using T0 unfolding doc by (simp add: assign_def)
    from trace_update_fields_Obj [OF r, of e ?ps1 answers] obtain ps' where
      tr: "trace (update_fields e upd (Obj ?ps1)) answers =
       [Assigned ''registrationDone'' (Bool True),
        Assigned ''firstName'' (merged upd (Obj ?ps1) ''firstName''),
        Assigned ''lastName'' (merged upd (Obj ?ps1) ''lastName''),
        Assigned ''email'' (merged upd (Obj ?ps1) ''email''),
        Assigned ''state'' (States_ONLINE e),
        Assigned ''avatar'' (field upd ''avatar''),
        Called (Save (Obj ps'))]
       @ (case answers of [] \<Rightarrow> [] | a # rest \<Rightarrow> [Responded (Json OK (Some (snd a)))])"
      and m: "map_of ps' = (map_of ?ps1)
         (''registrationDone'' \<mapsto> Bool True,
          ''firstName'' \<mapsto> merged upd (Obj ?ps1) ''firstName'',
          ''lastName'' \<mapsto> merged upd (Obj ?ps1) ''lastName'',
          ''email'' \<mapsto> merged upd (Obj ?ps1) ''email'',
          ''state'' \<mapsto> States_ONLINE e,
          ''avatar'' \<mapsto> field upd ''avatar'')"
      by blast
    have "Called (Save u) \<in> set (Assigned ''username'' ?v #
        trace (update_fields e upd (Obj ?ps1)) answers)"
      using assms unfolding T .
    then have u: "u = Obj ps'"
      unfolding tr by (cases answers) auto
    let ?pre = "[Assigned ''username'' ?v,
        Assigned ''registrationDone'' (Bool True),
        Assigned ''firstName'' (merged upd (Obj ?ps1) ''firstName''),
        Assigned ''lastName'' (merged upd (Obj ?ps1) ''lastName''),
        Assigned ''email'' (merged upd (Obj ?ps1) ''email''),
        Assigned ''state'' (States_ONLINE e),
        Assigned ''avatar'' (field upd ''avatar'')]"
    have shape: "?T = ?pre @ Called (Save u) #
        (case answers of [] \<Rightarrow> [] | a # rest \<Rightarrow> [Responded (Json OK (Some (snd a)))])"
      unfolding T tr u by simp
    have pre: "\<forall>ev \<in> set ?pre. \<exists>k v. ev = Assigned k v" by simp
    have other: "\<forall>k. k \<notin> set profile_fields \<longrightarrow> map_of ps' k = map_of ps k"
      unfolding m by (simp add: profile_fields_def update_conv')
    have mg: "merged upd (Obj ?ps1) ''firstName'' = merged upd doc ''firstName''"
      "merged upd (Obj ?ps1) ''lastName'' = merged upd doc ''lastName''"
      "merged upd (Obj ?ps1) ''email'' = merged upd doc ''email''"
      unfolding doc by (simp_all add: merged_other_key)
    show ?thesis
      apply (rule exI [of _ ps], rule exI [of _ ps'], rule exI [of _ ?pre])
      using doc u r ne False shape pre other mg
      by (simp add: m update_conv')
  qed
qed


lemma update_fields_events:
  assumes "ev \<in> set (trace (update_fields e upd d) answers)"
  shows "(\<exists>k v. ev = Assigned k v \<and> k \<noteq> ''username'') \<or> ev = Raised TypeError
       \<or> (\<exists>u. ev = Called (Save u)) \<or> (\<exists>b. ev = Responded (Json OK b))"
proof (cases "(\<forall>ps. d \<noteq> Obj ps) \<or> upd = Undefined \<or> upd = Null")
  case True
  from update_fields_no_save [OF this, of e answers] assms show ?thesis by auto
next
  case False
  then obtain ps where d: "d = Obj ps" and r: "upd \<noteq> Undefined" "upd \<noteq> Null" by blast
  from trace_update_fields_Obj [OF r, of e ps answers] assms show ?thesis
    unfolding d by (cases answers) auto
qed

lemma trace_update_fields_answer:
  "trace (update_fields e upd d) ((x, r) # rest) = trace (update_fields e upd d) ((y, r) # rest)"
proof (cases "(\<forall>ps. d \<noteq> Obj ps) \<or> upd = Undefined \<or> upd = Null")
  case True
  then show ?thesis
  proof (cases "upd = Undefined \<or> upd = Null")
    case True
    then show ?thesis by (simp add: update_fields_unreadable)
  next
    case False
    with True have n: "\<forall>ps. d \<noteq> Obj ps" by blast
    show ?thesis
    proof (cases "\<exists>xs. d = Arr xs")
      case True
      then show ?thesis using False by (auto simp: update_fields_Arr)
    next
      case False
      then show ?thesis using n by (simp add: update_fields_primitive)
    qed
  qed
next
  case False
  then obtain ps where d: "d = Obj ps" and r: "upd \<noteq> Undefined" "upd \<noteq> Null" by blast
  from update_fields_Obj [OF r, of e ps] show ?thesis
    unfolding d by (auto simp: update_save_cb_def)
qed

lemma trace_assign:
  "trace (assign d k v cont) answers =
     (case set_prop d k v of
        Inl x \<Rightarrow> [Raised x]
      | Inr d' \<Rightarrow> Assigned k v # trace (cont d') answers)"
  by (simp add: assign_def split: sum.splits)

lemma trace_update_cb_answer:
  "trace (update_cb e upd err doc) ((x, r) # rest) =
   trace (update_cb e upd err doc) ((y, r) # rest)"
  by (simp add: update_cb_cases trace_assign trace_update_fields_answer
      split: sum.splits)

lemma resolved_ids_update_cb:
  "resolved_ids (trace (update_cb e upd err doc) answers) = []"
proof -
  have f: "\<And>d. resolved_ids (trace (update_fields e upd d) answers) = []"
  proof -
    fix d
    show "resolved_ids (trace (update_fields e upd d) answers) = []"
    proof (cases "(\<forall>ps. d \<noteq> Obj ps) \<or> upd = Undefined \<or> upd = Null")
      case True
      from update_fields_no_save [OF this, of e answers] show ?thesis by auto
    next
      case False
      then obtain ps where d: "d = Obj ps" and r: "upd \<noteq> Undefined" "upd \<noteq> Null"
        by blast
      from trace_update_fields_Obj [OF r, of e ps answers] show ?thesis
        unfolding d by (cases answers) auto
    qed
  qed
  show ?thesis
    by (simp add: update_cb_cases trace_assign f split: sum.splits)
qed

lemma trace_delete:
  "trace (delete req) ((err, doc) # answers) =
     (case get_prop (user req) ''facebookId'' of
        Inl x \<Rightarrow> [Raised x]
      | Inr i \<Rightarrow> Called (Fb i) # trace (delete_cb err doc) answers)"
  by (simp add: delete_def attempt_def split: sum.splits)

lemma trace_delete_cb:
  "trace (delete_cb err doc) answers =
     (if truthy err \<or> doc = Null then
        [Responded (Problem BAD_REQUEST
          (Some ''Could not delete user'')
          (Some ''There was an error processing the request to save your information''))]
      else if \<exists>ps. doc = Obj ps then
        Called (Remove doc) #
          (case answers of [] \<Rightarrow> [] | a # rest \<Rightarrow> [Responded (Json OK (Some (snd a)))])
      else [Raised TypeError])"
  by (cases doc; cases answers) (auto simp: delete_cb_def delete_remove_cb_def)


section \<open>Update: validation, merge and save\<close>

text \<open>
  C2, as amended. When the resolved user's \<open>registrationDone\<close> is false (falsy) and the
  username of the body does not pass the format test, no property of the user is
  written and \<open>save\<close> is not called. When the username converts to a string, the
  handler answers with the bad-request problem "Invalid Username" / "User names must
  be 5-16 characters" and does nothing else. When the conversion of the username to
  a string raises, the exception leaves the handler and no response is emitted.
\<close>

theorem update_invalid_username_rejected:
  assumes "get_prop (user req) ''facebookId'' = Inr fbid"
    and "\<not> truthy err"
    and "get_prop doc ''registrationDone'' = Inr d" and "\<not> truthy d"
    and "get_prop (body req) ''username'' = Inr name"
    and "regex_test (num2str e) username_re name \<noteq> Inr True"
  shows "(\<forall>k v. Assigned k v \<notin> set (trace (update e req) ((err, doc) # answers)))
       \<and> (\<forall>u. Called (Save u) \<notin> set (trace (update e req) ((err, doc) # answers)))
       \<and> (\<forall>s. to_string (num2str e) name = Inr s \<longrightarrow>
             trace (update e req) ((err, doc) # answers) =
               [Called (Fb fbid),
                Responded (Problem 400 (Some ''Invalid Username'')
                  (Some ''User names must be 5-16 characters''))])
       \<and> (\<forall>x. to_string (num2str e) name = Inl x \<longrightarrow>
             trace (update e req) ((err, doc) # answers) = [Called (Fb fbid), Raised x])"
proof -
  let ?T = "trace (update e req) ((err, doc) # answers)"
  have n: "doc \<noteq> Null" using assms(3) by auto
  have T: "?T = Called (Fb fbid) #
      trace (attempt (regex_test (num2str e) username_re name) (\<lambda>matches.
            if matches = False then
              Respond (Problem BAD_REQUEST
                (Some ''Invalid Username'')
                (Some ''User names must be 5-16 characters''))
            else
              attempt (get_prop (body req) ''username'') (\<lambda>username.
              assign doc ''username'' username (update_fields e (body req))))) answers"
    using assms(1-5) n
    by (simp add: update_def update_cb_def attempt_def Let_def del: get_prop.simps)
  have a: "\<forall>s. to_string (num2str e) name = Inr s \<longrightarrow>
             ?T = [Called (Fb fbid),
                Responded (Problem 400 (Some ''Invalid Username'')
                  (Some ''User names must be 5-16 characters''))]"
    using assms(6) unfolding T
    by (auto simp: regex_test_def attempt_def BAD_REQUEST_def)
  have b: "\<forall>x. to_string (num2str e) name = Inl x \<longrightarrow> ?T = [Called (Fb fbid), Raised x]"
    unfolding T by (auto simp: regex_test_def attempt_def)
  have "(\<exists>s. to_string (num2str e) name = Inr s) \<or> (\<exists>x. to_string (num2str e) name = Inl x)"
    by (cases "to_string (num2str e) name") auto
  with a b have c: "(\<forall>k v. Assigned k v \<notin> set ?T) \<and> (\<forall>u. Called (Save u) \<notin> set ?T)"
    by auto
  from a b c show ?thesis by blast
qed

theorem update_invalid_username_rejected_witness:
  "trace (update \<lparr>num2str = \<lambda>r. [], States_ONLINE = Str (ascii ''online'')\<rparr>
      \<lparr>query = Obj [], params = Obj [],
       body = Obj [(''username'', Str (ascii ''ab1'')), (''firstName'', Str (ascii ''X''))],
       user = Obj [(''facebookId'', Str (ascii ''1001''))]\<rparr>)
     [(Null, Obj [(''registrationDone'', Bool False)])] =
   [Called (Fb (Str (ascii ''1001''))),
    Responded (Problem 400 (Some ''Invalid Username'')
      (Some ''User names must be 5-16 characters''))]
   \<and> trace (update \<lparr>num2str = \<lambda>r. [], States_ONLINE = Str (ascii ''online'')\<rparr>
      \<lparr>query = Obj [], params = Obj [],
       body = Obj [(''username'', Obj [(''toString'', Str (ascii ''x''))])],
       user = Obj [(''facebookId'', Str (ascii ''1001''))]\<rparr>)
     [(Null, Obj [(''registrationDone'', Bool False)])] =
   [Called (Fb (Str (ascii ''1001''))), Raised TypeError]"
proof -
  let ?e = "\<lparr>num2str = \<lambda>r. [], States_ONLINE = Str (ascii ''online'')\<rparr>"
  let ?req = "\<lparr>query = Obj [], params = Obj [],
       body = Obj [(''username'', Str (ascii ''ab1'')), (''firstName'', Str (ascii ''X''))],
       user = Obj [(''facebookId'', Str (ascii ''1001''))]\<rparr>"
  let ?req' = "\<lparr>query = Obj [], params = Obj [],
       body = Obj [(''username'', Obj [(''toString'', Str (ascii ''x''))])],
       user = Obj [(''facebookId'', Str (ascii ''1001''))]\<rparr>"
  let ?doc = "Obj [(''registrationDone'', Bool False)]"
  have h1: "get_prop (user ?req) ''facebookId'' = Inr (Str (ascii ''1001''))" by simp
  have h1': "get_prop (user ?req') ''facebookId'' = Inr (Str (ascii ''1001''))" by simp
  have h2: "\<not> truthy Null" by simp
  have h3: "get_prop ?doc ''registrationDone'' = Inr (Bool False)" by simp
  have h4: "\<not> truthy (Bool False)" by simp
  have h5: "get_prop (body ?req) ''username'' = Inr (Str (ascii ''ab1''))" by simp
  have h5': "get_prop (body ?req') ''username'' = Inr (Obj [(''toString'', Str (ascii ''x''))])"
    by simp
  have h6: "regex_test (num2str ?e) username_re (Str (ascii ''ab1'')) \<noteq> Inr True"
    by (simp add: regex_test_def regex_exec_username_re ascii_def cc_def)
  have h6': "regex_test (num2str ?e) username_re (Obj [(''toString'', Str (ascii ''x''))])
      \<noteq> Inr True"
    by (simp add: regex_test_def)
  have s: "to_string (num2str ?e) (Str (ascii ''ab1'')) = Inr (ascii ''ab1'')" by simp
  have s': "to_string (num2str ?e) (Obj [(''toString'', Str (ascii ''x''))]) = Inl TypeError"
    by simp
  from update_invalid_username_rejected [OF h1 h2 h3 h4 h5 h6, of "[]"] s
    update_invalid_username_rejected [OF h1' h2 h3 h4 h5' h6', of "[]"] s'
  show ?thesis by blast
qed

text \<open>
  C2 as stated fails on a username that cannot be converted to a string, an object
  with an own \<open>toString\<close> property that is not a function: it does not pass the
  format test, yet the handler emits no problem, the test of line 163 raises.
\<close>

theorem update_unconvertible_username_counterexample:
  "get_prop (Obj [(''registrationDone'', Bool False)]) ''registrationDone'' = Inr (Bool False)
   \<and> get_prop (body \<lparr>query = Obj [], params = Obj [],
         body = Obj [(''username'', Obj [(''toString'', Str (ascii ''x''))])],
         user = Obj [(''facebookId'', Str (ascii ''1001''))]\<rparr>) ''username'' =
       Inr (Obj [(''toString'', Str (ascii ''x''))])
   \<and> regex_test (\<lambda>r. []) username_re (Obj [(''toString'', Str (ascii ''x''))]) \<noteq> Inr True
   \<and> trace (update \<lparr>num2str = \<lambda>r. [], States_ONLINE = Str (ascii ''online'')\<rparr>
        \<lparr>query = Obj [], params = Obj [],
         body = Obj [(''username'', Obj [(''toString'', Str (ascii ''x''))])],
         user = Obj [(''facebookId'', Str (ascii ''1001''))]\<rparr>)
       [(Null, Obj [(''registrationDone'', Bool False)])] =
     [Called (Fb (Str (ascii ''1001''))), Raised TypeError]
   \<and> trace (update \<lparr>num2str = \<lambda>r. [], States_ONLINE = Str (ascii ''online'')\<rparr>
        \<lparr>query = Obj [], params = Obj [],
         body = Obj [(''username'', Obj [(''toString'', Str (ascii ''x''))])],
         user = Obj [(''facebookId'', Str (ascii ''1001''))]\<rparr>)
       [(Null, Obj [(''registrationDone'', Bool False)])] \<noteq>
     [Called (Fb (Str (ascii ''1001''))),
      Responded (Problem 400 (Some ''Invalid Username'')
        (Some ''User names must be 5-16 characters''))]"
  by (simp add: update_def update_cb_def attempt_def regex_test_def)

text \<open>
  C3. When the resolved user's \<open>registrationDone\<close> is true (truthy), the run holds no
  problem response at all, so none about the username format; the property
  \<open>username\<close> is never written, and a document that reaches \<open>save\<close> has the username
  the resolved user had. With a readable body the run does reach \<open>save\<close>.
\<close>

theorem update_registered_ignores_username:
  assumes "get_prop (user req) ''facebookId'' = Inr fbid"
    and "\<not> truthy err"
    and "get_prop doc ''registrationDone'' = Inr d" and "truthy d"
  shows "(\<forall>st ti de. Responded (Problem st ti de)
            \<notin> set (trace (update e req) ((err, doc) # answers)))
       \<and> (\<forall>v. Assigned ''username'' v \<notin> set (trace (update e req) ((err, doc) # answers)))
       \<and> (\<forall>u. Called (Save u) \<in> set (trace (update e req) ((err, doc) # answers)) \<longrightarrow>
             get_prop u ''username'' = get_prop doc ''username'')
       \<and> (body req \<noteq> Undefined \<and> body req \<noteq> Null \<longrightarrow>
             (\<exists>u. Called (Save u) \<in> set (trace (update e req) ((err, doc) # answers))))"
proof -
  let ?T = "trace (update e req) ((err, doc) # answers)"
  from assms(3) have doc: "doc \<noteq> Undefined" "doc \<noteq> Null" "d = field doc ''registrationDone''"
    using get_prop_Inr_field by blast+
  have T: "?T = Called (Fb fbid) # trace (update_fields e (body req) doc) answers"
    using assms doc by (simp add: trace_update update_cb_cases)
  have ev: "\<And>ev. ev \<in> set ?T \<Longrightarrow>
      ev = Called (Fb fbid) \<or> (\<exists>k v. ev = Assigned k v \<and> k \<noteq> ''username'')
      \<or> ev = Raised TypeError \<or> (\<exists>u. ev = Called (Save u))
      \<or> (\<exists>b. ev = Responded (Json OK b))"
    unfolding T using update_fields_events [of _ e "body req" doc answers] by auto
  have a: "\<forall>st ti de. Responded (Problem st ti de) \<notin> set ?T"
    using ev by blast
  have b: "\<forall>v. Assigned ''username'' v \<notin> set ?T"
    using ev by blast
  have c: "\<forall>u. Called (Save u) \<in> set ?T \<longrightarrow> get_prop u ''username'' = get_prop doc ''username''"
  proof (intro allI impI)
    fix u assume "Called (Save u) \<in> set ?T"
    then have "Called (Save u) \<in> set (trace (update_cb e (body req) err doc) answers)"
      using assms(1) by (simp add: trace_update)
    from update_cb_save [OF this] assms(4) doc(3)
    show "get_prop u ''username'' = get_prop doc ''username''"
      by auto
  qed
  have d: "body req \<noteq> Undefined \<and> body req \<noteq> Null \<longrightarrow> (\<exists>u. Called (Save u) \<in> set ?T)"
  proof
    assume r: "body req \<noteq> Undefined \<and> body req \<noteq> Null"
    from assms(3,4) obtain ps where p: "doc = Obj ps"
      by (cases doc) (auto split: if_splits)
    from r trace_update_fields_Obj [of "body req" e ps answers]
    have "\<exists>u. Called (Save u) \<in> set (trace (update_fields e (body req) doc) answers)"
      unfolding p by auto
    then show "\<exists>u. Called (Save u) \<in> set ?T"
      unfolding T by auto
  qed
  from a b c d show ?thesis by blast
qed


theorem update_registered_ignores_username_witness:
  "Responded (Problem 400 (Some ''Invalid Username'')
      (Some ''User names must be 5-16 characters''))
     \<notin> set (trace (update \<lparr>num2str = \<lambda>r. [], States_ONLINE = Str (ascii ''online'')\<rparr>
          \<lparr>query = Obj [], params = Obj [],
           body = Obj [(''username'', Str (ascii ''x'')), (''firstName'', Str (ascii ''X''))],
           user = Obj [(''facebookId'', Str (ascii ''1001''))]\<rparr>)
         [(Null, Obj [(''registrationDone'', Bool True), (''username'', Str (ascii ''alice''))])])
   \<and> Assigned ''username'' (Str (ascii ''x''))
     \<notin> set (trace (update \<lparr>num2str = \<lambda>r. [], States_ONLINE = Str (ascii ''online'')\<rparr>
          \<lparr>query = Obj [], params = Obj [],
           body = Obj [(''username'', Str (ascii ''x'')), (''firstName'', Str (ascii ''X''))],
           user = Obj [(''facebookId'', Str (ascii ''1001''))]\<rparr>)
         [(Null, Obj [(''registrationDone'', Bool True), (''username'', Str (ascii ''alice''))])])
   \<and> (\<exists>u. Called (Save u)
     \<in> set (trace (update \<lparr>num2str = \<lambda>r. [], States_ONLINE = Str (ascii ''online'')\<rparr>
          \<lparr>query = Obj [], params = Obj [],
           body = Obj [(''username'', Str (ascii ''x'')), (''firstName'', Str (ascii ''X''))],
           user = Obj [(''facebookId'', Str (ascii ''1001''))]\<rparr>)
         [(Null, Obj [(''registrationDone'', Bool True), (''username'', Str (ascii ''alice''))])]))"
proof -
  let ?req = "\<lparr>query = Obj [], params = Obj [],
           body = Obj [(''username'', Str (ascii ''x'')), (''firstName'', Str (ascii ''X''))],
           user = Obj [(''facebookId'', Str (ascii ''1001''))]\<rparr>"
  let ?doc = "Obj [(''registrationDone'', Bool True), (''username'', Str (ascii ''alice''))]"
  have h1: "get_prop (user ?req) ''facebookId'' = Inr (Str (ascii ''1001''))" by simp
  have h2: "\<not> truthy Null" by simp
  have h3: "get_prop ?doc ''registrationDone'' = Inr (Bool True)" by simp
  have h4: "truthy (Bool True)" by simp
  have h5: "body ?req \<noteq> Undefined \<and> body ?req \<noteq> Null" by simp
  from update_registered_ignores_username [OF h1 h2 h3 h4] h5
  show ?thesis by blast
qed

lemma update_fields_json_save:
  assumes "Responded (Json st b) \<in> set (trace (update_fields e upd d) answers)"
  shows "\<exists>u. Called (Save u) \<in> set (trace (update_fields e upd d) answers)"
proof (cases "(\<forall>ps. d \<noteq> Obj ps) \<or> upd = Undefined \<or> upd = Null")
  case True
  from update_fields_no_save [OF this, of e answers] assms show ?thesis by auto
next
  case False
  then obtain ps where d: "d = Obj ps" and r: "upd \<noteq> Undefined" "upd \<noteq> Null" by blast
  from trace_update_fields_Obj [OF r, of e ps answers] show ?thesis
    unfolding d by auto
qed

lemma update_cb_json_save:
  assumes "Responded (Json st b) \<in> set (trace (update_cb e upd err doc) answers)"
  shows "\<exists>u. Called (Save u) \<in> set (trace (update_cb e upd err doc) answers)"
proof -
  let ?T = "trace (update_cb e upd err doc) answers"
  have ne: "\<not> (truthy err \<or> doc = Null)" "doc \<noteq> Undefined"
    using assms by (auto simp: update_cb_cases split: if_splits)
  show ?thesis
  proof (cases "truthy (field doc ''registrationDone'')")
    case True
    then have T: "?T = trace (update_fields e upd doc) answers"
      using ne by (simp add: update_cb_cases)
    from assms update_fields_json_save [of st b e upd doc answers] show ?thesis
      unfolding T by blast
  next
    case False
    have r: "upd \<noteq> Undefined" "upd \<noteq> Null"
      using assms ne False by (auto simp: update_cb_cases split: if_splits)
    have ok: "regex_test (num2str e) username_re (field upd ''username'') = Inr True"
      using assms ne False r
      by (auto simp: update_cb_cases split: if_splits sum.splits)
    have T: "?T = trace (assign doc ''username'' (field upd ''username'')
                    (update_fields e upd)) answers"
      using ne False r ok by (simp add: update_cb_cases)
    show ?thesis
    proof (cases "set_prop doc ''username'' (field upd ''username'')")
      case (Inl x)
      with assms show ?thesis unfolding T by (simp add: trace_assign)
    next
      case (Inr d')
      then have T': "?T = Assigned ''username'' (field upd ''username'') #
          trace (update_fields e upd d') answers"
        unfolding T by (simp add: trace_assign)
      from assms have "Responded (Json st b) \<in> set (trace (update_fields e upd d') answers)"
        unfolding T' by simp
      from update_fields_json_save [OF this] show ?thesis
        unfolding T' by auto
    qed
  qed
qed

lemma update_cb_success_shape:
  assumes "Responded (Json st b) \<in> set (trace (update_cb e upd err doc) answers)"
  shows "\<exists>w pre. trace (update_cb e upd err doc) answers =
            pre @ [Called (Save w), Responded (Json st b)]
          \<and> st = OK
          \<and> (\<exists>a rest. answers = a # rest \<and> b = Some (snd a))
          \<and> profile_written e upd doc w"
proof -
  from update_cb_json_save [OF assms] obtain w where
    w: "Called (Save w) \<in> set (trace (update_cb e upd err doc) answers)" by blast
  from update_cb_save [OF w] obtain ps ps' pre where
    p: "doc = Obj ps" "w = Obj ps'"
      "map_of ps' ''registrationDone'' = Some (Bool True)"
      "map_of ps' ''firstName'' = Some (merged upd doc ''firstName'')"
      "map_of ps' ''lastName'' = Some (merged upd doc ''lastName'')"
      "map_of ps' ''email'' = Some (merged upd doc ''email'')"
      "map_of ps' ''state'' = Some (States_ONLINE e)"
      "map_of ps' ''avatar'' = Some (field upd ''avatar'')"
    and shape: "trace (update_cb e upd err doc) answers =
            pre @ Called (Save w) #
              (case answers of [] \<Rightarrow> [] | a # rest \<Rightarrow> [Responded (Json OK (Some (snd a)))])"
    and pre: "\<forall>ev \<in> set pre. \<exists>k v. ev = Assigned k v"
    by blast
  have pw: "profile_written e upd doc w"
    using p by (simp add: profile_written_def)
  have notpre: "Responded (Json st b) \<notin> set pre" using pre by auto
  from assms have "Responded (Json st b) \<in>
      set (case answers of [] \<Rightarrow> [] | a # rest \<Rightarrow> [Responded (Json OK (Some (snd a)))])"
    unfolding shape using notpre by auto
  then obtain a rest where a: "answers = a # rest" "st = OK" "b = Some (snd a)"
    by (cases answers) auto
  have "trace (update_cb e upd err doc) answers = pre @ [Called (Save w), Responded (Json st b)]"
    unfolding shape using a by simp
  with a pw show ?thesis by blast
qed

lemma update_cb_succeeds:
  assumes "\<not> truthy err" and "upd \<noteq> Undefined" and "upd \<noteq> Null"
    and "truthy (field (Obj ps) ''registrationDone'') \<or>
         regex_test (num2str e) username_re (field upd ''username'') = Inr True"
  shows "Responded (Json OK (Some saved))
           \<in> set (trace (update_cb e upd err (Obj ps)) ((serr, saved) # rest))"
proof (cases "truthy (field (Obj ps) ''registrationDone'')")
  case True
  then have "trace (update_cb e upd err (Obj ps)) ((serr, saved) # rest) =
      trace (update_fields e upd (Obj ps)) ((serr, saved) # rest)"
    using assms(1) by (simp add: update_cb_cases)
  with trace_update_fields_Obj [OF assms(2,3), of e ps "(serr, saved) # rest"]
  show ?thesis by auto
next
  case False
  with assms(4) have ok:
    "regex_test (num2str e) username_re (field upd ''username'') = Inr True" by blast
  let ?ps1 = "AList.update ''username'' (field upd ''username'') ps"
  have "trace (update_cb e upd err (Obj ps)) ((serr, saved) # rest) =
      Assigned ''username'' (field upd ''username'') #
      trace (update_fields e upd (Obj ?ps1)) ((serr, saved) # rest)"
    using assms(1-3) False ok by (simp add: update_cb_cases trace_assign)
  with trace_update_fields_Obj [OF assms(2,3), of e ?ps1 "(serr, saved) # rest"]
  show ?thesis by auto
qed

text \<open>
  C4. A document that reaches \<open>save\<close> has \<open>registrationDone\<close> true and \<open>state\<close> ONLINE,
  whatever the resolved user and the body were; \<open>firstName\<close>, \<open>lastName\<close> and \<open>email\<close>
  hold the body's value when that value is not falsy and the resolved user's value
  otherwise; \<open>avatar\<close> holds what the body has under \<open>avatar\<close>, \<open>undefined\<close> when it has
  nothing. A run that answers with the success response \<open>res.json(200, ...)\<close> ends
  with the \<open>save\<close> of such a document followed by that response. The success
  response is reached from a registered user and from an unregistered one whose
  username passes the test, once \<open>save\<close> has answered.
\<close>

theorem update_saved_fields:
  "(Called (Save u) \<in> set (trace (update e req) ((err, doc) # answers)) \<longrightarrow>
      profile_written e (body req) doc u)
   \<and> (Responded (Json 200 b) \<in> set (trace (update e req) ((err, doc) # answers)) \<longrightarrow>
        (\<exists>w pre. trace (update e req) ((err, doc) # answers) =
                   pre @ [Called (Save w), Responded (Json 200 b)]
               \<and> profile_written e (body req) doc w))
   \<and> (get_prop (user req) ''facebookId'' = Inr i \<and> \<not> truthy err \<and> doc = Obj ps
        \<and> body req \<noteq> Undefined \<and> body req \<noteq> Null
        \<and> (truthy (field doc ''registrationDone'') \<or>
            regex_test (num2str e) username_re (field (body req) ''username'') = Inr True)
        \<and> answers = (serr, saved) # rest \<longrightarrow>
        Responded (Json 200 (Some saved)) \<in> set (trace (update e req) ((err, doc) # answers)))"
proof -
  let ?T = "trace (update e req) ((err, doc) # answers)"
  have 1: "Called (Save u) \<in> set ?T \<longrightarrow> profile_written e (body req) doc u"
  proof
    assume "Called (Save u) \<in> set ?T"
    then have "Called (Save u) \<in> set (trace (update_cb e (body req) err doc) answers)"
      by (auto simp: trace_update split: sum.splits)
    from update_cb_save [OF this] show "profile_written e (body req) doc u"
      by (auto simp: profile_written_def)
  qed
  have 2: "Responded (Json 200 b) \<in> set ?T \<longrightarrow>
        (\<exists>w pre. ?T = pre @ [Called (Save w), Responded (Json 200 b)]
               \<and> profile_written e (body req) doc w)"
  proof
    assume r: "Responded (Json 200 b) \<in> set ?T"
    then obtain j where j: "get_prop (user req) ''facebookId'' = Inr j"
      and c: "Responded (Json 200 b) \<in> set (trace (update_cb e (body req) err doc) answers)"
      by (auto simp: trace_update split: sum.splits)
    from update_cb_success_shape [OF c] obtain w pre where
      s: "trace (update_cb e (body req) err doc) answers =
            pre @ [Called (Save w), Responded (Json 200 b)]"
      and pw: "profile_written e (body req) doc w"
      by blast
    have "?T = (Called (Fb j) # pre) @ [Called (Save w), Responded (Json 200 b)]"
      using j s by (simp add: trace_update)
    with pw show "\<exists>w pre. ?T = pre @ [Called (Save w), Responded (Json 200 b)]
               \<and> profile_written e (body req) doc w"
      by blast
  qed
  have 3: "get_prop (user req) ''facebookId'' = Inr i \<and> \<not> truthy err \<and> doc = Obj ps
        \<and> body req \<noteq> Undefined \<and> body req \<noteq> Null
        \<and> (truthy (field doc ''registrationDone'') \<or>
            regex_test (num2str e) username_re (field (body req) ''username'') = Inr True)
        \<and> answers = (serr, saved) # rest \<longrightarrow>
        Responded (Json 200 (Some saved)) \<in> set ?T"
  proof
    assume a: "get_prop (user req) ''facebookId'' = Inr i \<and> \<not> truthy err \<and> doc = Obj ps
        \<and> body req \<noteq> Undefined \<and> body req \<noteq> Null
        \<and> (truthy (field doc ''registrationDone'') \<or>
            regex_test (num2str e) username_re (field (body req) ''username'') = Inr True)
        \<and> answers = (serr, saved) # rest"
    then have "Responded (Json OK (Some saved))
           \<in> set (trace (update_cb e (body req) err (Obj ps)) ((serr, saved) # rest))"
      using update_cb_succeeds [of err "body req" ps e saved serr rest] by blast
    then show "Responded (Json 200 (Some saved)) \<in> set ?T"
      using a by (simp add: trace_update OK_def)
  qed
  from 1 2 3 show ?thesis by blast
qed


theorem update_saved_fields_witness:
  "Responded (Json 200 (Some (Obj [(''username'', Str (ascii ''abcde''))])))
     \<in> set (trace (update \<lparr>num2str = \<lambda>r. [], States_ONLINE = Str (ascii ''online'')\<rparr>
          \<lparr>query = Obj [], params = Obj [],
           body = Obj [(''username'', Str (ascii ''abcde'')), (''firstName'', Str (ascii ''X'')),
                       (''lastName'', Str [])],
           user = Obj [(''facebookId'', Str (ascii ''1001''))]\<rparr>)
         [(Null, Obj [(''registrationDone'', Bool False), (''firstName'', Str (ascii ''Old'')),
                      (''email'', Str (ascii ''old@example.org''))]),
          (Null, Obj [(''username'', Str (ascii ''abcde''))])])
   \<and> (\<exists>w pre.
        trace (update \<lparr>num2str = \<lambda>r. [], States_ONLINE = Str (ascii ''online'')\<rparr>
          \<lparr>query = Obj [], params = Obj [],
           body = Obj [(''username'', Str (ascii ''abcde'')), (''firstName'', Str (ascii ''X'')),
                       (''lastName'', Str [])],
           user = Obj [(''facebookId'', Str (ascii ''1001''))]\<rparr>)
         [(Null, Obj [(''registrationDone'', Bool False), (''firstName'', Str (ascii ''Old'')),
                      (''email'', Str (ascii ''old@example.org''))]),
          (Null, Obj [(''username'', Str (ascii ''abcde''))])] =
        pre @ [Called (Save w),
               Responded (Json 200 (Some (Obj [(''username'', Str (ascii ''abcde''))])))]
        \<and> get_prop w ''registrationDone'' = Inr (Bool True)
        \<and> get_prop w ''state'' = Inr (Str (ascii ''online''))
        \<and> get_prop w ''firstName'' = Inr (Str (ascii ''X''))
        \<and> get_prop w ''lastName'' = Inr Undefined
        \<and> get_prop w ''email'' = Inr (Str (ascii ''old@example.org''))
        \<and> get_prop w ''avatar'' = Inr Undefined)
   \<and> Called (Save (Obj [(''registrationDone'', Bool True), (''firstName'', Str (ascii ''X'')),
                      (''email'', Str (ascii ''old@example.org'')),
                      (''username'', Str (ascii ''abcde'')), (''lastName'', Undefined),
                      (''state'', Str (ascii ''online'')), (''avatar'', Undefined)]))
     \<in> set (trace (update \<lparr>num2str = \<lambda>r. [], States_ONLINE = Str (ascii ''online'')\<rparr>
          \<lparr>query = Obj [], params = Obj [],
           body = Obj [(''username'', Str (ascii ''abcde'')), (''firstName'', Str (ascii ''X'')),
                       (''lastName'', Str [])],
           user = Obj [(''facebookId'', Str (ascii ''1001''))]\<rparr>)
         [(Null, Obj [(''registrationDone'', Bool False), (''firstName'', Str (ascii ''Old'')),
                      (''email'', Str (ascii ''old@example.org''))]),
          (Null, Obj [(''username'', Str (ascii ''abcde''))])])"
proof -
  let ?e = "\<lparr>num2str = \<lambda>r. [], States_ONLINE = Str (ascii ''online'')\<rparr>"
  let ?upd = "Obj [(''username'', Str (ascii ''abcde'')), (''firstName'', Str (ascii ''X'')),
                   (''lastName'', Str [])]"
  let ?req = "\<lparr>query = Obj [], params = Obj [], body = ?upd,
       user = Obj [(''facebookId'', Str (ascii ''1001''))]\<rparr>"
  let ?ps = "[(''registrationDone'', Bool False), (''firstName'', Str (ascii ''Old'')),
              (''email'', Str (ascii ''old@example.org''))]"
  let ?saved = "Obj [(''username'', Str (ascii ''abcde''))]"
  let ?u = "Obj [(''registrationDone'', Bool True), (''firstName'', Str (ascii ''X'')),
                  (''email'', Str (ascii ''old@example.org'')),
                  (''username'', Str (ascii ''abcde'')), (''lastName'', Undefined),
                  (''state'', Str (ascii ''online'')), (''avatar'', Undefined)]"
  let ?T = "trace (update ?e ?req) [(Null, Obj ?ps), (Null, ?saved)]"
  note t = update_saved_fields [where e = ?e and req = ?req and err = Null
      and doc = "Obj ?ps" and ps = ?ps and answers = "[(Null, ?saved)]" and serr = Null
      and saved = ?saved and rest = "[]" and i = "Str (ascii ''1001'')"
      and b = "Some ?saved" and u = ?u]
  have g: "get_prop (user ?req) ''facebookId'' = Inr (Str (ascii ''1001'')) \<and> \<not> truthy Null
        \<and> Obj ?ps = Obj ?ps \<and> body ?req \<noteq> Undefined \<and> body ?req \<noteq> Null
        \<and> (truthy (field (Obj ?ps) ''registrationDone'') \<or>
            regex_test (num2str ?e) username_re (field (body ?req) ''username'') = Inr True)
        \<and> [(Null, ?saved)] = [(Null, ?saved)]"
    by (simp add: field_def regex_test_def regex_exec_username_re ascii_def cc_def
        ascii_letter_def ascii_digit_def word_char_def)
  from t g have r: "Responded (Json 200 (Some ?saved)) \<in> set ?T" by blast
  with t have "\<exists>w pre. ?T = pre @ [Called (Save w), Responded (Json 200 (Some ?saved))]
      \<and> profile_written ?e (body ?req) (Obj ?ps) w" by blast
  then have x: "\<exists>w pre. ?T = pre @ [Called (Save w), Responded (Json 200 (Some ?saved))]
        \<and> get_prop w ''registrationDone'' = Inr (Bool True)
        \<and> get_prop w ''state'' = Inr (Str (ascii ''online''))
        \<and> get_prop w ''firstName'' = Inr (Str (ascii ''X''))
        \<and> get_prop w ''lastName'' = Inr Undefined
        \<and> get_prop w ''email'' = Inr (Str (ascii ''old@example.org''))
        \<and> get_prop w ''avatar'' = Inr Undefined"
    by (simp add: profile_written_def merged_def field_def ascii_def)
  have h: "Called (Save ?u) \<in> set ?T"
    by (simp add: update_def update_cb_def update_fields_def assign_def attempt_def
        js_or_def regex_test_def regex_exec_username_re ascii_def cc_def
        ascii_letter_def ascii_digit_def word_char_def)
  from r x h show ?thesis by blast
qed

text \<open>
  C10. When the resolved user is a document whose \<open>registrationDone\<close> is false (falsy)
  and the body has nothing under \<open>username\<close>, the test of line 163 runs on the text
  \<open>undefined\<close>, which has the format, so the request is not rejected: \<open>undefined\<close> is
  written to the user's \<open>username\<close>, and the document that reaches \<open>save\<close> afterwards
  has \<open>undefined\<close> as its username.
\<close>

theorem update_absent_username_passes:
  assumes "get_prop (user req) ''facebookId'' = Inr fbid"
    and "\<not> truthy err"
    and "get_prop (Obj ps) ''registrationDone'' = Inr d" and "\<not> truthy d"
    and "get_prop (body req) ''username'' = Inr Undefined"
  shows "to_string (num2str e) Undefined = Inr (ascii ''undefined'')
       \<and> regex_test (num2str e) username_re Undefined = Inr True
       \<and> (\<exists>u rest. trace (update e req) ((err, Obj ps) # answers) =
             Called (Fb fbid) # Assigned ''username'' Undefined # rest
           \<and> Called (Save u) \<in> set rest
           \<and> get_prop u ''username'' = Inr Undefined)"
proof -
  have fmt: "username_format (ascii ''undefined'')"
    by (simp add: ascii_def cc_def ascii_letter_def ascii_digit_def word_char_def)
  have t: "regex_test (num2str e) username_re Undefined = Inr True"
    by (simp add: regex_test_def regex_exec_username_re fmt)
  from assms(5) have r: "body req \<noteq> Undefined" "body req \<noteq> Null"
    and f: "field (body req) ''username'' = Undefined"
    using get_prop_Inr_field by fastforce+
  from assms(3) have dd: "d = field (Obj ps) ''registrationDone''"
    using get_prop_Inr_field by blast
  let ?ps1 = "AList.update ''username'' Undefined ps"
  have T: "trace (update e req) ((err, Obj ps) # answers) =
      Called (Fb fbid) # Assigned ''username'' Undefined #
        trace (update_fields e (body req) (Obj ?ps1)) answers"
    using assms(1,2,4) r f t dd
    by (simp add: trace_update update_cb_cases trace_assign)
  from trace_update_fields_Obj [OF r, of e ?ps1 answers] obtain ps' where
    s: "Called (Save (Obj ps')) \<in> set (trace (update_fields e (body req) (Obj ?ps1)) answers)"
    and m: "map_of ps' ''username'' = Some Undefined"
    by (auto simp: update_conv')
  have "get_prop (Obj ps') ''username'' = Inr Undefined"
    using m by simp
  with T s t show ?thesis by auto
qed

theorem update_absent_username_passes_witness:
  "trace (update \<lparr>num2str = \<lambda>r. [], States_ONLINE = Str (ascii ''online'')\<rparr>
      \<lparr>query = Obj [], params = Obj [],
       body = Obj [(''firstName'', Str (ascii ''X''))],
       user = Obj [(''facebookId'', Str (ascii ''1001''))]\<rparr>)
     [(Null, Obj [(''registrationDone'', Bool False)])] =
   [Called (Fb (Str (ascii ''1001''))),
    Assigned ''username'' Undefined,
    Assigned ''registrationDone'' (Bool True),
    Assigned ''firstName'' (Str (ascii ''X'')),
    Assigned ''lastName'' Undefined,
    Assigned ''email'' Undefined,
    Assigned ''state'' (Str (ascii ''online'')),
    Assigned ''avatar'' Undefined,
    Called (Save (Obj [(''registrationDone'', Bool True), (''username'', Undefined),
                       (''firstName'', Str (ascii ''X'')), (''lastName'', Undefined),
                       (''email'', Undefined), (''state'', Str (ascii ''online'')),
                       (''avatar'', Undefined)]))]
   \<and> regex_test (\<lambda>r. []) username_re Undefined = Inr True"
proof -
  let ?e = "\<lparr>num2str = \<lambda>r. [], States_ONLINE = Str (ascii ''online'')\<rparr>"
  let ?req = "\<lparr>query = Obj [], params = Obj [],
       body = Obj [(''firstName'', Str (ascii ''X''))],
       user = Obj [(''facebookId'', Str (ascii ''1001''))]\<rparr>"
  have h1: "get_prop (user ?req) ''facebookId'' = Inr (Str (ascii ''1001''))" by simp
  have h2: "\<not> truthy Null" by simp
  have h3: "get_prop (Obj [(''registrationDone'', Bool False)]) ''registrationDone'' =
    Inr (Bool False)" by simp
  have h4: "\<not> truthy (Bool False)" by simp
  have h5: "get_prop (body ?req) ''username'' = Inr Undefined" by simp
  from update_absent_username_passes [OF h1 h2 h3 h4 h5, of ?e "[]"]
  have t: "regex_test (num2str ?e) username_re Undefined = Inr True" by blast
  then show ?thesis
    by (simp add: update_def update_cb_def update_fields_def assign_def attempt_def
        js_or_def ascii_def)
qed


text \<open>
  C6. The callbacks of \<open>save\<close> and \<open>remove\<close> never look at their error argument: a run
  of \<open>update\<close> or \<open>delete\<close> is the same whatever error the second answer carries, and
  once \<open>save\<close> or \<open>remove\<close> has been called the run ends with the success response
  \<open>res.json(200, result)\<close> on the result the callback received.
\<close>

theorem save_and_remove_respond_ok_unconditionally:
  "trace (update e req) (a # (werr, result) # rest) =
     trace (update e req) (a # (err', result) # rest)
   \<and> trace (delete req) (a # (werr, result) # rest) =
     trace (delete req) (a # (err', result) # rest)
   \<and> (Called (Save u) \<in> set (trace (update e req) (a # (werr, result) # rest)) \<longrightarrow>
        last (trace (update e req) (a # (werr, result) # rest)) =
          Responded (Json 200 (Some result)))
   \<and> (Called (Remove u) \<in> set (trace (delete req) (a # (werr, result) # rest)) \<longrightarrow>
        last (trace (delete req) (a # (werr, result) # rest)) =
          Responded (Json 200 (Some result)))"
proof -
  obtain ferr doc where a: "a = (ferr, doc)" by (cases a)
  have 1: "trace (update e req) (a # (werr, result) # rest) =
     trace (update e req) (a # (err', result) # rest)"
    unfolding a by (simp add: trace_update trace_update_cb_answer [of _ _ _ _ werr _ _ "err'"]
        split: sum.splits)
  have 2: "trace (delete req) (a # (werr, result) # rest) =
     trace (delete req) (a # (err', result) # rest)"
    unfolding a by (simp add: trace_delete trace_delete_cb split: sum.splits)
  have 3: "Called (Save u) \<in> set (trace (update e req) (a # (werr, result) # rest)) \<longrightarrow>
        last (trace (update e req) (a # (werr, result) # rest)) =
          Responded (Json 200 (Some result))"
  proof
    assume "Called (Save u) \<in> set (trace (update e req) (a # (werr, result) # rest))"
    then obtain i where i: "get_prop (user req) ''facebookId'' = Inr i"
      and s: "Called (Save u) \<in> set (trace (update_cb e (body req) ferr doc)
                ((werr, result) # rest))"
      unfolding a by (auto simp: trace_update split: sum.splits)
    from update_cb_save [OF s] obtain pre where
      "trace (update_cb e (body req) ferr doc) ((werr, result) # rest) =
         pre @ [Called (Save u), Responded (Json OK (Some result))]"
      by auto
    then show "last (trace (update e req) (a # (werr, result) # rest)) =
          Responded (Json 200 (Some result))"
      unfolding a using i by (simp add: trace_update OK_def)
  qed
  have 4: "Called (Remove u) \<in> set (trace (delete req) (a # (werr, result) # rest)) \<longrightarrow>
        last (trace (delete req) (a # (werr, result) # rest)) =
          Responded (Json 200 (Some result))"
    unfolding a
    by (auto simp: trace_delete trace_delete_cb OK_def split: sum.splits if_splits)
  from 1 2 3 4 show ?thesis by blast
qed

theorem save_and_remove_respond_ok_unconditionally_witness:
  "Called (Save (Obj [(''registrationDone'', Bool True), (''firstName'', Undefined),
                      (''lastName'', Undefined), (''email'', Undefined),
                      (''state'', Str (ascii ''online'')), (''avatar'', Undefined)]))
     \<in> set (trace (update \<lparr>num2str = \<lambda>r. [], States_ONLINE = Str (ascii ''online'')\<rparr>
          \<lparr>query = Obj [], params = Obj [], body = Obj [],
           user = Obj [(''facebookId'', Str (ascii ''1001''))]\<rparr>)
         [(Null, Obj [(''registrationDone'', Bool True)]),
          (Str (ascii ''write failed''), Undefined)])
   \<and> last (trace (update \<lparr>num2str = \<lambda>r. [], States_ONLINE = Str (ascii ''online'')\<rparr>
          \<lparr>query = Obj [], params = Obj [], body = Obj [],
           user = Obj [(''facebookId'', Str (ascii ''1001''))]\<rparr>)
         [(Null, Obj [(''registrationDone'', Bool True)]),
          (Str (ascii ''write failed''), Undefined)]) =
       Responded (Json 200 (Some Undefined))
   \<and> Called (Remove (Obj [(''registrationDone'', Bool True)]))
     \<in> set (trace (delete
          \<lparr>query = Obj [], params = Obj [], body = Obj [],
           user = Obj [(''facebookId'', Str (ascii ''1001''))]\<rparr>)
         [(Null, Obj [(''registrationDone'', Bool True)]),
          (Str (ascii ''remove failed''), Undefined)])
   \<and> last (trace (delete
          \<lparr>query = Obj [], params = Obj [], body = Obj [],
           user = Obj [(''facebookId'', Str (ascii ''1001''))]\<rparr>)
         [(Null, Obj [(''registrationDone'', Bool True)]),
          (Str (ascii ''remove failed''), Undefined)]) =
       Responded (Json 200 (Some Undefined))"
proof -
  let ?e = "\<lparr>num2str = \<lambda>r. [], States_ONLINE = Str (ascii ''online'')\<rparr>"
  let ?req = "\<lparr>query = Obj [], params = Obj [], body = Obj [],
           user = Obj [(''facebookId'', Str (ascii ''1001''))]\<rparr>"
  let ?doc = "Obj [(''registrationDone'', Bool True)]"
  let ?u = "Obj [(''registrationDone'', Bool True), (''firstName'', Undefined),
                      (''lastName'', Undefined), (''email'', Undefined),
                      (''state'', Str (ascii ''online'')), (''avatar'', Undefined)]"
  have h1: "Called (Save ?u) \<in> set (trace (update ?e ?req)
      [(Null, ?doc), (Str (ascii ''write failed''), Undefined)])"
    by (simp add: update_def update_cb_def update_fields_def assign_def attempt_def
        js_or_def update_save_cb_def)
  have h2: "Called (Remove ?doc) \<in> set (trace (delete ?req)
      [(Null, ?doc), (Str (ascii ''remove failed''), Undefined)])"
    by (simp add: delete_def delete_cb_def attempt_def delete_remove_cb_def)
  from save_and_remove_respond_ok_unconditionally
    [where e = ?e and req = ?req and a = "(Null, ?doc)"
       and werr = "Str (ascii ''write failed'')" and result = Undefined and rest = "[]"
       and u = ?u] h1
  have c1: "last (trace (update ?e ?req)
      [(Null, ?doc), (Str (ascii ''write failed''), Undefined)]) =
       Responded (Json 200 (Some Undefined))" by blast
  from save_and_remove_respond_ok_unconditionally
    [where req = ?req and a = "(Null, ?doc)"
       and werr = "Str (ascii ''remove failed'')" and result = Undefined and rest = "[]"
       and u = ?doc] h2
  have c2: "last (trace (delete ?req)
      [(Null, ?doc), (Str (ascii ''remove failed''), Undefined)]) =
       Responded (Json 200 (Some Undefined))" by blast
  from h1 h2 c1 c2 show ?thesis by blast
qed

section \<open>Update and delete act on the principal's record\<close>

lemma trace_update_pending:
  "trace (update e req) [] =
     (case get_prop (user req) ''facebookId'' of
        Inl x \<Rightarrow> [Raised x]
      | Inr i \<Rightarrow> [Called (Fb i)])"
  by (simp add: update_def attempt_def Let_def split: sum.splits)

lemma trace_delete_pending:
  "trace (delete req) [] =
     (case get_prop (user req) ''facebookId'' of
        Inl x \<Rightarrow> [Raised x]
      | Inr i \<Rightarrow> [Called (Fb i)])"
  by (simp add: delete_def attempt_def split: sum.splits)

lemma resolved_ids_update:
  "resolved_ids (trace (update e req) answers) =
     (case get_prop (user req) ''facebookId'' of Inl x \<Rightarrow> [] | Inr i \<Rightarrow> [i])"
proof (cases answers)
  case Nil
  then show ?thesis by (simp add: trace_update_pending split: sum.splits)
next
  case (Cons a rest)
  obtain err doc where "a = (err, doc)" by (cases a)
  with Cons show ?thesis
    by (simp add: trace_update resolved_ids_update_cb split: sum.splits)
qed

lemma resolved_ids_delete:
  "resolved_ids (trace (delete req) answers) =
     (case get_prop (user req) ''facebookId'' of Inl x \<Rightarrow> [] | Inr i \<Rightarrow> [i])"
proof (cases answers)
  case Nil
  then show ?thesis by (simp add: trace_delete_pending split: sum.splits)
next
  case (Cons a rest)
  obtain err doc where "a = (err, doc)" by (cases a)
  with Cons show ?thesis
    by (cases rest) (auto simp: trace_delete trace_delete_cb split: sum.splits)
qed

lemma update_saved_same_record:
  assumes "Called (Save u) \<in> set (trace (update e req) ((err, doc) # rest))"
    and "k \<notin> set profile_fields"
  shows "get_prop u k = get_prop doc k"
proof -
  have "Called (Save u) \<in> set (trace (update_cb e (body req) err doc) rest)"
    using assms(1) by (auto simp: trace_update split: sum.splits)
  from update_cb_save [OF this] assms(2) show ?thesis by auto
qed

text \<open>
  C5. \<open>update\<close> and \<open>delete\<close> ask \<open>User.fb\<close> to resolve exactly one identity, the
  \<open>facebookId\<close> of the session's \<open>req.user\<close>, and act on the document it answers: two
  requests with the same \<open>req.user\<close> resolve the same identity whatever their bodies,
  path and query parameters are; \<open>delete\<close> runs identically on both and removes the
  answered document itself; a document that \<open>update\<close> saves agrees with the answered
  document on every property outside the profile fields of lines 171-179 (its \<open>_id\<close>
  in particular), for both requests.
\<close>

theorem mutations_resolved_by_principal:
  assumes "user req = user req'"
  shows "resolved_ids (trace (update e req) answers) =
           resolved_ids (trace (update e req') answers)
       \<and> resolved_ids (trace (update e req) answers) =
           (case get_prop (user req) ''facebookId'' of Inl x \<Rightarrow> [] | Inr i \<Rightarrow> [i])
       \<and> trace (delete req) answers = trace (delete req') answers
       \<and> resolved_ids (trace (delete req) answers) =
           (case get_prop (user req) ''facebookId'' of Inl x \<Rightarrow> [] | Inr i \<Rightarrow> [i])
       \<and> (\<forall>u. Called (Remove u) \<in> set (trace (delete req) ((err, doc) # rest)) \<longrightarrow> u = doc)
       \<and> (\<forall>u u' k. Called (Save u) \<in> set (trace (update e req) ((err, doc) # rest))
              \<and> Called (Save u') \<in> set (trace (update e req') ((err, doc) # rest))
              \<and> k \<notin> set profile_fields \<longrightarrow>
            get_prop u k = get_prop doc k \<and> get_prop u' k = get_prop doc k)"
proof -
  have 1: "resolved_ids (trace (update e req) answers) =
           resolved_ids (trace (update e req') answers)"
    using assms by (simp add: resolved_ids_update)
  have 3: "trace (delete req) answers = trace (delete req') answers"
    using assms by (simp add: delete_def)
  have 5: "\<forall>u. Called (Remove u) \<in> set (trace (delete req) ((err, doc) # rest)) \<longrightarrow> u = doc"
    by (auto simp: trace_delete trace_delete_cb split: sum.splits if_splits list.splits)
  have 6: "\<forall>u u' k. Called (Save u) \<in> set (trace (update e req) ((err, doc) # rest))
              \<and> Called (Save u') \<in> set (trace (update e req') ((err, doc) # rest))
              \<and> k \<notin> set profile_fields \<longrightarrow>
            get_prop u k = get_prop doc k \<and> get_prop u' k = get_prop doc k"
    using update_saved_same_record by blast
  from 1 3 5 6 show ?thesis
    by (simp add: resolved_ids_update resolved_ids_delete)
qed


theorem mutations_resolved_by_principal_witness:
  "user \<lparr>query = Obj [], params = Obj [(''id'', Str (ascii ''AAAA''))],
         body = Obj [(''_id'', Str (ascii ''AAAA'')), (''firstName'', Str (ascii ''X''))],
         user = Obj [(''facebookId'', Str (ascii ''1001''))]\<rparr> =
   user \<lparr>query = Obj [], params = Obj [(''id'', Str (ascii ''BBBB''))],
         body = Obj [(''_id'', Str (ascii ''BBBB'')), (''firstName'', Str (ascii ''Y''))],
         user = Obj [(''facebookId'', Str (ascii ''1001''))]\<rparr>
   \<and> resolved_ids (trace (update \<lparr>num2str = \<lambda>r. [], States_ONLINE = Str (ascii ''online'')\<rparr>
        \<lparr>query = Obj [], params = Obj [(''id'', Str (ascii ''AAAA''))],
         body = Obj [(''_id'', Str (ascii ''AAAA'')), (''firstName'', Str (ascii ''X''))],
         user = Obj [(''facebookId'', Str (ascii ''1001''))]\<rparr>)
        [(Null, Obj [(''_id'', Str (ascii ''u1'')), (''registrationDone'', Bool True)])]) =
     [Str (ascii ''1001'')]
   \<and> resolved_ids (trace (update \<lparr>num2str = \<lambda>r. [], States_ONLINE = Str (ascii ''online'')\<rparr>
        \<lparr>query = Obj [], params = Obj [(''id'', Str (ascii ''BBBB''))],
         body = Obj [(''_id'', Str (ascii ''BBBB'')), (''firstName'', Str (ascii ''Y''))],
         user = Obj [(''facebookId'', Str (ascii ''1001''))]\<rparr>)
        [(Null, Obj [(''_id'', Str (ascii ''u1'')), (''registrationDone'', Bool True)])]) =
     [Str (ascii ''1001'')]
   \<and> get_prop (Obj [(''_id'', Str (ascii ''u1'')), (''registrationDone'', Bool True),
                    (''firstName'', Str (ascii ''X'')), (''lastName'', Undefined),
                    (''email'', Undefined), (''state'', Str (ascii ''online'')),
                    (''avatar'', Undefined)]) ''_id'' =
     get_prop (Obj [(''_id'', Str (ascii ''u1'')), (''registrationDone'', Bool True)]) ''_id''
   \<and> get_prop (Obj [(''_id'', Str (ascii ''u1'')), (''registrationDone'', Bool True),
                    (''firstName'', Str (ascii ''Y'')), (''lastName'', Undefined),
                    (''email'', Undefined), (''state'', Str (ascii ''online'')),
                    (''avatar'', Undefined)]) ''_id'' =
     get_prop (Obj [(''_id'', Str (ascii ''u1'')), (''registrationDone'', Bool True)]) ''_id''"
proof -
  let ?e = "\<lparr>num2str = \<lambda>r. [], States_ONLINE = Str (ascii ''online'')\<rparr>"
  let ?r = "\<lparr>query = Obj [], params = Obj [(''id'', Str (ascii ''AAAA''))],
         body = Obj [(''_id'', Str (ascii ''AAAA'')), (''firstName'', Str (ascii ''X''))],
         user = Obj [(''facebookId'', Str (ascii ''1001''))]\<rparr>"
  let ?r' = "\<lparr>query = Obj [], params = Obj [(''id'', Str (ascii ''BBBB''))],
         body = Obj [(''_id'', Str (ascii ''BBBB'')), (''firstName'', Str (ascii ''Y''))],
         user = Obj [(''facebookId'', Str (ascii ''1001''))]\<rparr>"
  let ?doc = "Obj [(''_id'', Str (ascii ''u1'')), (''registrationDone'', Bool True)]"
  let ?u = "Obj [(''_id'', Str (ascii ''u1'')), (''registrationDone'', Bool True),
                    (''firstName'', Str (ascii ''X'')), (''lastName'', Undefined),
                    (''email'', Undefined), (''state'', Str (ascii ''online'')),
                    (''avatar'', Undefined)]"
  let ?u' = "Obj [(''_id'', Str (ascii ''u1'')), (''registrationDone'', Bool True),
                    (''firstName'', Str (ascii ''Y'')), (''lastName'', Undefined),
                    (''email'', Undefined), (''state'', Str (ascii ''online'')),
                    (''avatar'', Undefined)]"
  have h: "user ?r = user ?r'" by simp
  have s: "Called (Save ?u) \<in> set (trace (update ?e ?r) [(Null, ?doc)])"
    by (simp add: update_def update_cb_def update_fields_def assign_def attempt_def
        js_or_def ascii_def)
  have s': "Called (Save ?u') \<in> set (trace (update ?e ?r') [(Null, ?doc)])"
    by (simp add: update_def update_cb_def update_fields_def assign_def attempt_def
        js_or_def ascii_def)
  have k: "''_id'' \<notin> set profile_fields" by (simp add: profile_fields_def)
  note m = mutations_resolved_by_principal
    [OF h, where e = ?e and answers = "[(Null, ?doc)]" and err = Null and doc = ?doc
      and rest = "[]"]
  from m have "resolved_ids (trace (update ?e ?r) [(Null, ?doc)]) =
      (case get_prop (user ?r) ''facebookId'' of Inl x \<Rightarrow> [] | Inr i \<Rightarrow> [i])"
    by blast
  then have a: "resolved_ids (trace (update ?e ?r) [(Null, ?doc)]) = [Str (ascii ''1001'')]"
    by simp
  from m have "resolved_ids (trace (update ?e ?r) [(Null, ?doc)]) =
      resolved_ids (trace (update ?e ?r') [(Null, ?doc)])"
    by blast
  with a have b: "resolved_ids (trace (update ?e ?r') [(Null, ?doc)]) = [Str (ascii ''1001'')]"
    by simp
  from m s s' k have c: "get_prop ?u ''_id'' = get_prop ?doc ''_id''
      \<and> get_prop ?u' ''_id'' = get_prop ?doc ''_id''"
    by blast
  from h a b c show ?thesis by blast
qed

section \<open>GetMessages\<close>

text \<open>
  C7, as amended. With the answer \<open>(err, doc)\<close> of \<open>User.getMessages\<close>, where \<open>doc\<close> is not
  \<open>undefined\<close> unless an error is reported: the handler calls \<open>res.problem\<close> with
  status 204 and neither title nor detail exactly when the error is truthy, or \<open>doc\<close>
  is \<open>null\<close>, or \<open>doc.messages\<close> is \<open>null\<close>; in every other case, a document without a
  \<open>messages\<close> property included, it calls \<open>res.json(200, doc)\<close>. With no error and an
  \<open>undefined\<close> document the read of \<open>doc.messages\<close> raises a TypeError and nothing is
  emitted.
\<close>

theorem getMessages_responses:
  assumes "get_prop (params req) ''mid'' = Inr mid"
  shows "(truthy err \<or> doc \<noteq> Undefined \<longrightarrow>
            trace (getMessages req) ((err, doc) # answers) =
              [Called (GetMessages mid),
               Responded (if truthy err \<or> doc = Null \<or> get_prop doc ''messages'' = Inr Null
                          then Problem 204 None None else Json 200 (Some doc))])
       \<and> (\<not> truthy err \<and> doc = Undefined \<longrightarrow>
            trace (getMessages req) ((err, doc) # answers) =
              [Called (GetMessages mid), Raised TypeError])"
proof (cases "doc = Undefined \<or> doc = Null")
  case True
  then show ?thesis
    using assms
    by (auto simp: getMessages_def getMessages_cb_def attempt_def NO_CONTENT_def)
next
  case False
  then have "get_prop doc ''messages'' = Inr (field doc ''messages'')"
    by (simp add: get_prop_field)
  then show ?thesis
    using assms False
    by (auto simp: getMessages_def getMessages_cb_def attempt_def NO_CONTENT_def OK_def
        simp del: get_prop.simps)
qed

theorem getMessages_responses_witness:
  "trace (getMessages \<lparr>query = Obj [],
        params = Obj [(''mid'', Str (ascii ''52aff48d78b818c844000001''))],
        body = Obj [], user = Obj []\<rparr>)
     [(Null, Obj [(''_id'', Str (ascii ''52aff48d78b818c844000001''))])] =
   [Called (GetMessages (Str (ascii ''52aff48d78b818c844000001''))),
    Responded (Json 200 (Some (Obj [(''_id'', Str (ascii ''52aff48d78b818c844000001''))])))]
   \<and> trace (getMessages \<lparr>query = Obj [],
        params = Obj [(''mid'', Str (ascii ''52aff48d78b818c844000001''))],
        body = Obj [], user = Obj []\<rparr>)
     [(Null, Obj [(''messages'', Null)])] =
   [Called (GetMessages (Str (ascii ''52aff48d78b818c844000001''))),
    Responded (Problem 204 None None)]
   \<and> trace (getMessages \<lparr>query = Obj [],
        params = Obj [(''mid'', Str (ascii ''52aff48d78b818c844000001''))],
        body = Obj [], user = Obj []\<rparr>)
     [(Str (ascii ''connection lost''), Undefined)] =
   [Called (GetMessages (Str (ascii ''52aff48d78b818c844000001''))),
    Responded (Problem 204 None None)]"
proof -
  let ?req = "\<lparr>query = Obj [],
        params = Obj [(''mid'', Str (ascii ''52aff48d78b818c844000001''))],
        body = Obj [], user = Obj []\<rparr>"
  have h: "get_prop (params ?req) ''mid'' = Inr (Str (ascii ''52aff48d78b818c844000001''))"
    by simp
  from getMessages_responses [OF h, of Null "Obj [(''_id'', Str (ascii ''52aff48d78b818c844000001''))]" "[]"]
    getMessages_responses [OF h, of Null "Obj [(''messages'', Null)]" "[]"]
    getMessages_responses [OF h, of "Str (ascii ''connection lost'')" Undefined "[]"]
  show ?thesis by (simp add: ascii_def)
qed

text \<open>
  C7 as stated fails on an answer without error whose document is \<open>undefined\<close>: none of
  the three conditions holds, yet the handler emits no response, it raises.
\<close>

theorem getMessages_undefined_document_counterexample:
  "\<not> truthy Null \<and> Undefined \<noteq> Null \<and> get_prop Undefined ''messages'' \<noteq> Inr Null
   \<and> trace (getMessages \<lparr>query = Obj [],
        params = Obj [(''mid'', Str (ascii ''52aff48d78b818c844000001''))],
        body = Obj [], user = Obj []\<rparr>)
       [(Null, Undefined)] =
     [Called (GetMessages (Str (ascii ''52aff48d78b818c844000001''))), Raised TypeError]
   \<and> trace (getMessages \<lparr>query = Obj [],
        params = Obj [(''mid'', Str (ascii ''52aff48d78b818c844000001''))],
        body = Obj [], user = Obj []\<rparr>)
       [(Null, Undefined)] \<noteq>
     [Called (GetMessages (Str (ascii ''52aff48d78b818c844000001''))),
      Responded (Json 200 (Some Undefined))]"
  by (simp add: getMessages_def getMessages_cb_def attempt_def)

section \<open>List\<close>

text \<open>
  C8. Once \<open>req.query\<close> has been read, \<open>list\<close> calls \<open>User.publicList(skip, take)\<close> and
  nothing else until the answer is there. On an error it emits the 500 problem with
  detail "Could not list users due to internal error"; on a \<open>null\<close> or empty result
  it emits \<open>res.json(204)\<close> without calling \<open>User.count\<close>; on a non-empty array it
  calls \<open>User.count({})\<close> once and emits \<open>res.json(200, ...)\<close> whose \<open>meta.total\<close> is
  the count answered, or 0 when that count is falsy, with the list under \<open>results\<close>.
\<close>

theorem list_responses:
  assumes "get_prop (query req) ''skip'' = Inr sk"
    and "get_prop (query req) ''take'' = Inr tk"
  shows "trace (list req) [] = [Called (PublicList sk tk)]
       \<and> (\<not> truthy err \<and> results = Arr (x # xs) \<longrightarrow>
            trace (list req) [(err, results)] =
              [Called (PublicList sk tk), Called (Count (Obj []))]
          \<and> trace (list req) ((err, results) # (cerr, count) # rest) =
              [Called (PublicList sk tk), Called (Count (Obj [])),
               Responded (Json 200 (Some (Obj
                 [(''meta'', Obj [(''total'', if truthy count then count else Num (Finite 0))]),
                  (''results'', results)])))])
       \<and> (\<not> truthy err \<and> (results = Null \<or> results = Arr []) \<longrightarrow>
            trace (list req) ((err, results) # rest) =
              [Called (PublicList sk tk), Responded (Json 204 None)])
       \<and> (truthy err \<longrightarrow>
            trace (list req) ((err, results) # rest) =
              [Called (PublicList sk tk),
               Responded (Problem 500 (Some ''Unexpected problem'')
                 (Some ''Could not list users due to internal error''))])"
  using assms
  by (auto simp: list_def list_cb_def list_count_cb_def attempt_def js_or_def
      OK_def NO_CONTENT_def INTERNAL_SERVER_ERROR_def)

theorem list_responses_witness:
  "trace (list \<lparr>query = Obj [(''skip'', Str (ascii ''0'')), (''take'', Str (ascii ''10''))],
        params = Obj [], body = Obj [], user = Obj []\<rparr>)
     [(Null, Arr [Obj [(''username'', Str (ascii ''alice''))]]), (Null, Num (Finite 1))] =
   [Called (PublicList (Str (ascii ''0'')) (Str (ascii ''10''))), Called (Count (Obj [])),
    Responded (Json 200 (Some (Obj
      [(''meta'', Obj [(''total'', Num (Finite 1))]),
       (''results'', Arr [Obj [(''username'', Str (ascii ''alice''))]])])))]
   \<and> trace (list \<lparr>query = Obj [(''skip'', Str (ascii ''0'')), (''take'', Str (ascii ''10''))],
        params = Obj [], body = Obj [], user = Obj []\<rparr>)
     [(Null, Arr [Obj [(''username'', Str (ascii ''alice''))]]),
      (Str (ascii ''count failed''), Undefined)] =
   [Called (PublicList (Str (ascii ''0'')) (Str (ascii ''10''))), Called (Count (Obj [])),
    Responded (Json 200 (Some (Obj
      [(''meta'', Obj [(''total'', Num (Finite 0))]),
       (''results'', Arr [Obj [(''username'', Str (ascii ''alice''))]])])))]
   \<and> trace (list \<lparr>query = Obj [(''skip'', Str (ascii ''0'')), (''take'', Str (ascii ''10''))],
        params = Obj [], body = Obj [], user = Obj []\<rparr>)
     [(Null, Arr [])] =
   [Called (PublicList (Str (ascii ''0'')) (Str (ascii ''10''))), Responded (Json 204 None)]
   \<and> trace (list \<lparr>query = Obj [(''skip'', Str (ascii ''0'')), (''take'', Str (ascii ''10''))],
        params = Obj [], body = Obj [], user = Obj []\<rparr>)
     [(Str (ascii ''connection lost''), Undefined)] =
   [Called (PublicList (Str (ascii ''0'')) (Str (ascii ''10''))),
    Responded (Problem 500 (Some ''Unexpected problem'')
      (Some ''Could not list users due to internal error''))]"
proof -
  let ?req = "\<lparr>query = Obj [(''skip'', Str (ascii ''0'')), (''take'', Str (ascii ''10''))],
        params = Obj [], body = Obj [], user = Obj []\<rparr>"
  let ?x = "Obj [(''username'', Str (ascii ''alice''))]"
  have h1: "get_prop (query ?req) ''skip'' = Inr (Str (ascii ''0''))" by simp
  have h2: "get_prop (query ?req) ''take'' = Inr (Str (ascii ''10''))" by simp
  from list_responses [OF h1 h2, where err = Null and results = "Arr [?x]" and x = ?x
         and xs = "[]" and cerr = Null and count = "Num (Finite 1)" and rest = "[]"]
    list_responses [OF h1 h2, where err = Null and results = "Arr [?x]" and x = ?x
         and xs = "[]" and cerr = "Str (ascii ''count failed'')" and count = Undefined
         and rest = "[]"]
    list_responses [OF h1 h2, where err = Null and results = "Arr []" and rest = "[]"]
    list_responses [OF h1 h2, where err = "Str (ascii ''connection lost'')"
         and results = Undefined and rest = "[]"]
  show ?thesis by (simp add: ascii_def)
qed

end
